theory Spec2Isabelle
  imports Main
begin

section \<open>Strings and regular expressions of the JavaScript source\<close>

text \<open>
  A JavaScript string is modelled as a \<^typ>\<open>string\<close>: every \<^typ>\<open>char\<close> is one code
  unit with a value below 256 (the Latin-1 range of UTF-16). The fixed reply texts of
  the source are transcribed in ASCII (umlauts spelled out, pictographs left out); the
  values interpolated into them are kept as they are.
\<close>

definition isDigit :: "char \<Rightarrow> bool" where
  \<comment> \<open>the class \<open>\d\<close>\<close>
  "isDigit c = (48 \<le> (of_char c :: nat) \<and> (of_char c :: nat) \<le> 57)"

definition isWordChar :: "char \<Rightarrow> bool" where
  \<comment> \<open>the class \<open>\w\<close>, which decides the word boundary \<open>\b\<close>\<close>
  "isWordChar c =
     (let n = (of_char c :: nat)
      in (48 \<le> n \<and> n \<le> 57) \<or> (65 \<le> n \<and> n \<le> 90) \<or> (97 \<le> n \<and> n \<le> 122) \<or> n = 95)"

definition isWhiteSpace :: "char \<Rightarrow> bool" where
  \<comment> \<open>the class \<open>\s\<close>, also what \<open>trim\<close> removes: TAB, LF, VT, FF, CR, SP, NBSP\<close>
  "isWhiteSpace c =
     (let n = (of_char c :: nat) in (9 \<le> n \<and> n \<le> 13) \<or> n = 32 \<or> n = 160)"

definition trim :: "string \<Rightarrow> string" where
  "trim s = rev (dropWhile isWhiteSpace (rev (dropWhile isWhiteSpace s)))"

definition lowerChar :: "char \<Rightarrow> char" where
  "lowerChar c =
     (let n = (of_char c :: nat)
      in if (65 \<le> n \<and> n \<le> 90) \<or> (192 \<le> n \<and> n \<le> 222 \<and> n \<noteq> 215)
         then char_of (n + 32) else c)"

definition toLowerCase :: "string \<Rightarrow> string" where
  "toLowerCase s = map lowerChar s"

definition upperAscii :: "char \<Rightarrow> char" where
  \<comment> \<open>the canonical form the flag \<open>i\<close> compares: no character above 127 is folded onto
      an ASCII letter\<close>
  "upperAscii c =
     (let n = (of_char c :: nat) in if 97 \<le> n \<and> n \<le> 122 then char_of (n - 32) else c)"

fun startsWith :: "string \<Rightarrow> string \<Rightarrow> bool" where
  "startsWith s [] = True"
| "startsWith [] (p # ps) = False"
| "startsWith (c # cs) (p # ps) = (c = p \<and> startsWith cs ps)"

fun includesStr :: "string \<Rightarrow> string \<Rightarrow> bool" where
  "includesStr [] t = startsWith [] t"
| "includesStr (c # cs) t = (startsWith (c # cs) t \<or> includesStr cs t)"

fun parseInt :: "string \<Rightarrow> nat" where
  \<comment> \<open>\<open>parseInt\<close> on a string of decimal digits; the rounding of a JavaScript number is
      left out (it turns no non-zero value into zero)\<close>
  "parseInt ds = foldl (\<lambda>n c. 10 * n + ((of_char c :: nat) - 48)) 0 ds"

subsection \<open>A backtracking matcher\<close>

text \<open>
  A pattern is a function from a continuation and the text at the current position to
  what is left of the text after the whole match, tried in the order of the JavaScript
  engine: a greedy quantifier takes the longest run first and gives characters back one
  at a time, an optional group is tried before it is skipped.
\<close>

type_synonym cont = "string \<Rightarrow> string option"
type_synonym regex = "cont \<Rightarrow> string \<Rightarrow> string option"

fun rep :: "(char \<Rightarrow> bool) \<Rightarrow> nat \<Rightarrow> nat option \<Rightarrow> regex" where
  \<comment> \<open>\<open>cls{lo,hi}\<close>, with \<open>hi = None\<close> for no upper bound\<close>
  "rep p lo hi k [] = (if lo = 0 then k [] else None)"
| "rep p lo hi k (c # cs) =
     (if hi \<noteq> Some 0 \<and> p c
      then (case rep p (lo - 1) (map_option (\<lambda>h. h - 1) hi) k cs of
              Some r \<Rightarrow> Some r
            | None \<Rightarrow> if lo = 0 then k (c # cs) else None)
      else if lo = 0 then k (c # cs) else None)"

definition lit :: "char \<Rightarrow> regex" where
  "lit a k s = (case s of [] \<Rightarrow> None | c # cs \<Rightarrow> if c = a then k cs else None)"

definition opt :: "regex \<Rightarrow> regex" where
  "opt r k s = (case r k s of Some t \<Rightarrow> Some t | None \<Rightarrow> k s)"

fun match_re :: "regex \<Rightarrow> string \<Rightarrow> string option" where
  \<comment> \<open>\<open>text.match(re)\<close> without the flag \<open>g\<close>: element 0 of the result, the leftmost match;
      \<open>None\<close> is \<open>null\<close>\<close>
  "match_re re [] = (case re Some [] of Some r \<Rightarrow> Some [] | None \<Rightarrow> None)"
| "match_re re (c # cs) =
     (case re Some (c # cs) of
        Some r \<Rightarrow> Some (take (length (c # cs) - length r) (c # cs))
      | None \<Rightarrow> match_re re cs)"

definition date_re :: regex where
  \<comment> \<open>\<open>/\d{1,2}\.\d{1,2}\.\d{4}/\<close>\<close>
  "date_re k =
     rep isDigit 1 (Some 2) (lit CHR ''.'' (rep isDigit 1 (Some 2)
       (lit CHR ''.'' (rep isDigit 4 (Some 4) k))))"

definition time_re :: regex where
  \<comment> \<open>\<open>/\d{1,2}(:\d{2})?/\<close>\<close>
  "time_re k =
     rep isDigit 1 (Some 2) (opt (\<lambda>k'. lit CHR '':'' (rep isDigit 2 (Some 2) k')) k)"

definition dur_re :: regex where
  \<comment> \<open>\<open>/\d+/\<close>\<close>
  "dur_re k = rep isDigit 1 None k"

definition notSpaceAt :: "char \<Rightarrow> bool" where
  \<comment> \<open>the class \<open>[^\s@]\<close>\<close>
  "notSpaceAt c = (\<not> isWhiteSpace c \<and> c \<noteq> CHR ''@'')"

definition email_re :: regex where
  \<comment> \<open>\<open>/[^\s@]+@[^\s@]+\.[^\s@]+/\<close>\<close>
  "email_re k =
     rep notSpaceAt 1 None (lit CHR ''@'' (rep notSpaceAt 1 None
       (lit CHR ''.'' (rep notSpaceAt 1 None k))))"

subsection \<open>Filler words\<close>

text \<open>
  \<open>message.replace(/\b(um|gegen|Uhr)\b/gi, "")\<close>: the text is scanned from the left;
  where a filler word stands between two word boundaries it is dropped and the scan goes
  on behind it. The flag says whether the character before the current position is a
  word character.
\<close>

definition fillerWords :: "string list" where
  "fillerWords = [''um'', ''gegen'', ''Uhr'']"

fun startsWithCI :: "string \<Rightarrow> string \<Rightarrow> bool" where
  "startsWithCI s [] = True"
| "startsWithCI [] (p # ps) = False"
| "startsWithCI (c # cs) (p # ps) = (upperAscii c = upperAscii p \<and> startsWithCI cs ps)"

definition boundaryAfter :: "string \<Rightarrow> bool" where
  \<comment> \<open>\<open>\b\<close> behind a word character: the text ends or goes on with a non-word character\<close>
  "boundaryAfter s = (case s of [] \<Rightarrow> True | c # cs \<Rightarrow> \<not> isWordChar c)"

definition fillerAt :: "bool \<Rightarrow> string \<Rightarrow> nat option" where
  \<comment> \<open>the length of the filler word matched at the head of the text\<close>
  "fillerAt prevWord s =
     (if prevWord then None
      else map_option length
             (find (\<lambda>w. startsWithCI s w \<and> boundaryAfter (drop (length w) s)) fillerWords))"

function stripFillers :: "bool \<Rightarrow> string \<Rightarrow> string" where
  "stripFillers pw [] = []"
| "stripFillers pw (c # cs) =
     (case fillerAt pw (c # cs) of
        Some n \<Rightarrow> stripFillers True (drop n (c # cs))
      | None \<Rightarrow> c # stripFillers (isWordChar c) cs)"
  by pat_completeness auto
termination
  by (relation "measure (\<lambda>(pw, s). length s)")
     (auto simp: fillerAt_def fillerWords_def split: if_splits)

definition cleanText :: "string \<Rightarrow> string" where
  \<comment> \<open>\<open>cleanedText\<close> of \<open>handleUserMessage\<close>\<close>
  "cleanText message = trim (stripFillers False message)"

subsection \<open>Phone numbers\<close>

definition normalizePhone :: "string \<Rightarrow> string \<Rightarrow> string" where
  \<comment> \<open>the first argument is \<open>DEFAULT_COUNTRY\<close>\<close>
  "normalizePhone dc phone =
     (if phone = [] then phone
      else let p = trim phone
           in if startsWith p ''+'' then p
              else dc @ filter isDigit p)"

section \<open>Sessions and the outside world\<close>

datatype stage =
  start | awaiting_date | awaiting_time | awaiting_duration | awaiting_email
  | creating | completed

text \<open>
  \<open>session.data\<close> is an object whose properties are added one by one; a property that
  has not been set is \<open>None\<close>. The last three are the lead metadata that
  \<open>/lead-webhook\<close> writes.
\<close>

record booking =
  date :: "string option"
  time :: "string option"
  duration :: "nat option"
  email :: "string option"
  firstName :: "string option"
  lastName :: "string option"
  company :: "string option"

record session =
  stage :: stage
  data :: booking

type_synonym sessions = "string \<rightharpoonup> session"

definition emptyData :: booking where
  "emptyData = \<lparr>date = None, time = None, duration = None, email = None,
                 firstName = None, lastName = None, company = None\<rparr>"

definition newSession :: session where
  \<comment> \<open>\<open>{ stage: "start", data: {} }\<close>\<close>
  "newSession = \<lparr>stage = start, data = emptyData\<rparr>"

definition keys :: "booking \<Rightarrow> string set" where
  \<comment> \<open>the property names present in \<open>session.data\<close>\<close>
  "keys d =
     (if date d = None then {} else {''date''}) \<union>
     (if time d = None then {} else {''time''}) \<union>
     (if duration d = None then {} else {''duration''}) \<union>
     (if email d = None then {} else {''email''}) \<union>
     (if firstName d = None then {} else {''firstName''}) \<union>
     (if lastName d = None then {} else {''lastName''}) \<union>
     (if company d = None then {} else {''company''})"

definition truthyStr :: "string option \<Rightarrow> bool" where
  \<comment> \<open>a string property in a condition: \<open>undefined\<close> and \<open>""\<close> are falsy\<close>
  "truthyStr v = (case v of None \<Rightarrow> False | Some s \<Rightarrow> s \<noteq> [])"

definition truthyNum :: "nat option \<Rightarrow> bool" where
  \<comment> \<open>a number property in a condition: \<open>undefined\<close> and \<open>0\<close> are falsy\<close>
  "truthyNum v = (case v of None \<Rightarrow> False | Some n \<Rightarrow> n \<noteq> 0)"

definition strOf :: "string option \<Rightarrow> string" where
  \<comment> \<open>a property interpolated into a template literal\<close>
  "strOf v = (case v of None \<Rightarrow> ''undefined'' | Some s \<Rightarrow> s)"

datatype 'a outcome = Throws | Returns 'a

record event =
  hangoutLink :: "string option"
  entryUri :: "string option"

text \<open>
  What a turn gets from outside: whether \<open>token.json\<close> exists (\<open>loadToken\<close> gives
  \<open>null\<close> when it does not; a file that exists was written by \<open>saveToken\<close> and
  parses), the start and end instants that \<open>parseGermanDateTime\<close>, \<open>Date\<close> and
  \<open>toLocalISOStringWithOffset\<close> of the version at hand make of date, time and duration
  in the time zone of the host (\<open>Throws\<close> when they raise, as \<open>toISOString\<close> does on
  an invalid date), the two calendar calls, the completion service (its argument is the
  inbound text the prompt is built from, its result the \<open>content\<close> of the first
  choice) and the configured \<open>DEFAULT_COUNTRY\<close>. The inbound text is a string
  (\<open>message || ""\<close> is the message itself).
\<close>

record env =
  token :: bool
  instants :: "string \<Rightarrow> string \<Rightarrow> nat option \<Rightarrow> (string \<times> string) outcome"
  isSlotFree :: "string \<Rightarrow> string \<Rightarrow> bool outcome"
  createEvent :: "string \<Rightarrow> string \<Rightarrow> string \<Rightarrow> string option \<Rightarrow> event outcome"
  completion :: "string \<Rightarrow> string option outcome"
  defaultCountry :: string

definition computeInstants ::
  "env \<Rightarrow> string option \<Rightarrow> string \<Rightarrow> nat option \<Rightarrow> (string \<times> string) outcome" where
  \<comment> \<open>\<open>dateStr.split(".")\<close> is a TypeError when the date is \<open>undefined\<close>\<close>
  "computeInstants e d t n = (case d of None \<Rightarrow> Throws | Some ds \<Rightarrow> instants e ds t n)"

definition meetLink :: "string \<Rightarrow> event \<Rightarrow> string" where
  \<comment> \<open>\<open>event.hangoutLink || event.conferenceData?.entryPoints?.[0]?.uri || fallback\<close>\<close>
  "meetLink fallback ev =
     (if truthyStr (hangoutLink ev) then strOf (hangoutLink ev)
      else if truthyStr (entryUri ev) then strOf (entryUri ev)
      else fallback)"

datatype booked = Busy | Booked event

definition tryBook ::
  "env \<Rightarrow> string \<Rightarrow> string option \<Rightarrow> string \<Rightarrow> nat option \<Rightarrow> string option \<Rightarrow> booked outcome"
  where
  \<comment> \<open>the statements of the \<open>creating\<close> stage up to the call of \<open>createEvent\<close>; the
      first exception ends them\<close>
  "tryBook e summary d t n mail =
     (case computeInstants e d t n of
        Throws \<Rightarrow> Throws
      | Returns (startIso, endIso) \<Rightarrow>
          (case isSlotFree e startIso endIso of
             Throws \<Rightarrow> Throws
           | Returns free \<Rightarrow>
               if \<not> free then Returns Busy
               else (case createEvent e summary startIso endIso mail of
                       Throws \<Rightarrow> Throws
                     | Returns ev \<Rightarrow> Returns (Booked ev))))"

section \<open>\<open>handleUserMessage\<close> of \<open>src/backend/serverv3.js\<close>\<close>

definition msgNotConnected :: string where
  "msgNotConnected = ''Bot ist nicht verbunden. Bitte Google Setup durchfuehren.''"

definition msgAskDate :: string where
  "msgAskDate = ''Fuer wann moechten Sie den Termin vereinbaren? (TT.MM.JJJJ)''"

definition msgAskTime :: "string \<Rightarrow> string" where
  "msgAskTime d = ''Super! Zu welcher Uhrzeit am '' @ d @ '' wuerde es Ihnen passen?''"

definition msgAskDuration :: string where
  "msgAskDuration = ''Perfekt! Wie lange soll das Meeting dauern? (z. B. 30 oder 60 Minuten)''"

definition msgAskEmail :: string where
  "msgAskEmail =
     ''Alles klar. Bitte geben Sie Ihre E-Mail-Adresse an, damit ich den Termin eintragen kann.''"

definition msgChecking :: string where
  "msgChecking = ''Einen Moment, ich pruefe, ob der Termin verfuegbar ist ...''"

definition msgMissing :: string where
  "msgMissing =
     ''Es fehlen noch Informationen. Bitte geben Sie Datum, Uhrzeit, Dauer und E-Mail an.''"

definition msgBusy :: string where
  "msgBusy =
     ''Dieser Zeitraum ist leider schon belegt. Bitte schlagen Sie eine andere Zeit vor.''"

definition msgError :: string where
  "msgError = ''Es gab einen Fehler bei der Verarbeitung Ihrer Anfrage.''"

definition msgAlreadyBooked :: string where
  "msgAlreadyBooked =
     ''Der Termin wurde bereits vereinbart. Moechten Sie noch etwas besprechen?''"

definition msgConfirm :: "string \<Rightarrow> string \<Rightarrow> string \<Rightarrow> string \<Rightarrow> string" where
  "msgConfirm d t mail link =
     ''Termin am '' @ d @ '' um '' @ t @ '' wurde erfolgreich eingetragen.'' @ [CHR 0x0A]
     @ ''Einladung an '' @ mail @ ''.'' @ [CHR 0x0A]
     @ ''Google Meet Link: '' @ link"

definition firstMissing :: "booking \<Rightarrow> stage" where
  \<comment> \<open>\<open>!date ? "awaiting_date" : !time ? "awaiting_time" : !duration ? "awaiting_duration"
      : "awaiting_email"\<close>\<close>
  "firstMissing d =
     (if \<not> truthyStr (date d) then awaiting_date
      else if \<not> truthyStr (time d) then awaiting_time
      else if \<not> truthyNum (duration d) then awaiting_duration
      else awaiting_email)"

definition collect :: "string \<Rightarrow> string \<Rightarrow> session \<Rightarrow> string \<times> session" where
  \<comment> \<open>the chain of the collecting stages; the reply starts as \<open>""\<close>\<close>
  "collect cleanedText textLower s =
     (if stage s = start \<or> stage s = awaiting_date then
        if includesStr textLower ''termin'' \<and> stage s = start then
          (''Klar! '' @ msgAskDate, s\<lparr>stage := awaiting_date\<rparr>)
        else
          let dateMatch = match_re date_re cleanedText;
              timeMatch = match_re time_re cleanedText;
              d1 = (case dateMatch of None \<Rightarrow> data s | Some m \<Rightarrow> (data s)\<lparr>date := Some m\<rparr>);
              d2 = (case timeMatch of None \<Rightarrow> d1 | Some m \<Rightarrow> d1\<lparr>time := Some m\<rparr>)
          in if truthyStr (date d2) \<and> truthyStr (time d2) then
               (msgAskDuration, \<lparr>stage = awaiting_duration, data = d2\<rparr>)
             else if \<not> truthyStr (date d2) then
               (msgAskDate, \<lparr>stage = awaiting_date, data = d2\<rparr>)
             else
               (msgAskTime (strOf (date d2)), \<lparr>stage = awaiting_time, data = d2\<rparr>)
      else if stage s = awaiting_time then
        (case match_re time_re cleanedText of
           Some m \<Rightarrow> (msgAskDuration, \<lparr>stage = awaiting_duration, data = (data s)\<lparr>time := Some m\<rparr>\<rparr>)
         | None \<Rightarrow> (''Bitte geben Sie eine Uhrzeit an, z. B. 10:00 Uhr.'', s))
      else if stage s = awaiting_duration then
        (case match_re dur_re cleanedText of
           Some m \<Rightarrow>
             (msgAskEmail,
              \<lparr>stage = awaiting_email, data = (data s)\<lparr>duration := Some (parseInt m)\<rparr>\<rparr>)
         | None \<Rightarrow> (''Wie lange soll der Termin dauern (in Minuten)?'', s))
      else if stage s = awaiting_email then
        (case match_re email_re cleanedText of
           Some m \<Rightarrow> (msgChecking, \<lparr>stage = creating, data = (data s)\<lparr>email := Some m\<rparr>\<rparr>)
         | None \<Rightarrow> (''Bitte geben Sie eine gueltige E-Mail-Adresse an.'', s))
      else ([], s))"

definition createBooking :: "env \<Rightarrow> session \<Rightarrow> string \<times> session" where
  \<comment> \<open>the block of the stage \<open>creating\<close>\<close>
  "createBooking e s =
     (let d = data s in
      if \<not> truthyStr (date d) \<or> \<not> truthyStr (time d) \<or> \<not> truthyNum (duration d)
         \<or> \<not> truthyStr (email d)
      then (msgMissing, s\<lparr>stage := firstMissing d\<rparr>)
      else
        (case tryBook e ''Beratungstermin zur Finanzierung'' (date d) (strOf (time d))
                (duration d) (email d) of
           Throws \<Rightarrow> (msgError, s\<lparr>stage := awaiting_email\<rparr>)
         | Returns Busy \<Rightarrow> (msgBusy, s\<lparr>stage := awaiting_time\<rparr>)
         | Returns (Booked ev) \<Rightarrow>
             (msgConfirm (strOf (date d)) (strOf (time d)) (strOf (email d))
                (meetLink ''kein Link verfuegbar'' ev),
              s\<lparr>stage := completed\<rparr>)))"

definition advance :: "env \<Rightarrow> session \<Rightarrow> string \<Rightarrow> string \<times> session" where
  \<comment> \<open>the body of \<open>handleUserMessage\<close> behind the credential guard\<close>
  "advance e s message =
     (let cleanedText = cleanText message;
          textLower = toLowerCase cleanedText;
          (reply, s1) = collect cleanedText textLower s
      in if stage s1 = creating then createBooking e s1
         else if stage s1 = completed then (msgAlreadyBooked, s1)
         else (reply, s1))"

definition handleUserMessage ::
  "env \<Rightarrow> sessions \<Rightarrow> string \<Rightarrow> string \<Rightarrow> string \<times> sessions" where
  "handleUserMessage e ss userId message =
     (if \<not> token e then (msgNotConnected, ss)
      else
        let s = (case ss userId of None \<Rightarrow> newSession | Some s0 \<Rightarrow> s0);
            (reply, s') = advance e s message
        in (reply, ss(userId \<mapsto> s')))"

section \<open>The other versions of the conversation\<close>

text \<open>
  The unnamed source files hold further versions of the same server. Three of them are
  modelled: the \<open>/twilio/incoming-sms\<close> handler of the first file of \<open>part_001\<close>, and
  the \<open>handleUserMessage\<close> of \<open>part_002\<close> and of the second file of \<open>part_003\<close>.
  They match on the lower-cased text, without removing filler words.
\<close>

definition timeGroups :: "string \<Rightarrow> string" where
  \<comment> \<open>\<open>`${timeMatch[1]}:${timeMatch[2] || "00"}`\<close> for a match of
      \<open>/(\d{1,2})(?::(\d{2}))?/\<close>: group 1 is the digits before the colon, group 2 the
      digits behind it\<close>
  "timeGroups m =
     takeWhile isDigit m @ '':'' @
     (case dropWhile isDigit m of [] \<Rightarrow> ''00'' | c # mm \<Rightarrow> mm)"

definition aiReply :: "string option \<Rightarrow> string" where
  \<comment> \<open>\<open>aiRes.choices?.[0]?.message?.content?.trim() || "Danke ..."\<close>\<close>
  "aiReply content =
     (if truthyStr (map_option trim content) then strOf (map_option trim content)
      else ''Danke fuer Ihre Nachricht! Wie kann ich helfen?'')"

subsection \<open>\<open>handleUserMessage\<close> of \<open>part_002\<close>\<close>

definition collect_p2 :: "string \<Rightarrow> session \<Rightarrow> (string \<times> session) outcome" where
  \<comment> \<open>\<open>BOT_NAME\<close> is not declared in this file: building the prompt in the stage
      \<open>start\<close> is a ReferenceError\<close>
  "collect_p2 text s =
     (if stage s = start then
        if includesStr text ''termin'' then
          Returns (''Klar! Fuer wann moechten Sie den Termin vereinbaren?'',
                   s\<lparr>stage := awaiting_date\<rparr>)
        else Throws
      else if stage s = awaiting_date then
        (case match_re date_re text of
           Some m \<Rightarrow>
             Returns (''Super! Zu welcher Uhrzeit am '' @ m @ '' moechten Sie den Termin?'',
                      \<lparr>stage = awaiting_time, data = (data s)\<lparr>date := Some m\<rparr>\<rparr>)
         | None \<Rightarrow> Returns (''Bitte geben Sie ein Datum an, z. B. 08.11.2025.'', s))
      else if stage s = awaiting_time then
        (case match_re time_re text of
           Some m \<Rightarrow>
             Returns (''Perfekt. Wie lange soll das Meeting dauern? (z. B. 30 oder 60 Minuten)'',
                      \<lparr>stage = awaiting_duration, data = (data s)\<lparr>time := Some (timeGroups m)\<rparr>\<rparr>)
         | None \<Rightarrow> Returns (''Bitte geben Sie eine Uhrzeit an, z. B. 10:00 Uhr.'', s))
      else if stage s = awaiting_duration then
        (case match_re dur_re text of
           Some m \<Rightarrow>
             Returns (msgAskEmail,
                      \<lparr>stage = awaiting_email, data = (data s)\<lparr>duration := Some (parseInt m)\<rparr>\<rparr>)
         | None \<Rightarrow> Returns (''Wie lange soll der Termin dauern (in Minuten)?'', s))
      else if stage s = awaiting_email then
        (case match_re email_re text of
           Some m \<Rightarrow> Returns (msgChecking, \<lparr>stage = creating, data = (data s)\<lparr>email := Some m\<rparr>\<rparr>)
         | None \<Rightarrow> Returns (''Bitte geben Sie eine gueltige E-Mail-Adresse an.'', s))
      else Returns ([], s))"

definition msgMissing_p2 :: string where
  "msgMissing_p2 =
     ''Es fehlen noch Informationen. Bitte Datum, Uhrzeit, Dauer und E-Mail angeben.''"

definition msgConfirm_p2 :: "string \<Rightarrow> string \<Rightarrow> string \<Rightarrow> string \<Rightarrow> string" where
  "msgConfirm_p2 d t mail link =
     ''Termin am '' @ d @ '' um '' @ t @ '' wurde erfolgreich eingetragen.'' @ [CHR 0x0A]
     @ ''Einladung an '' @ mail @ '' gesendet.'' @ [CHR 0x0A]
     @ ''Google Meet Link: '' @ link"

definition createBooking_p2 :: "env \<Rightarrow> session \<Rightarrow> string \<times> session" where
  "createBooking_p2 e s =
     (let d = data s in
      if \<not> truthyStr (date d) \<or> \<not> truthyStr (time d) \<or> \<not> truthyNum (duration d)
         \<or> \<not> truthyStr (email d)
      then (msgMissing_p2, s\<lparr>stage := firstMissing d\<rparr>)
      else
        (case tryBook e ''Beratungstermin zur Finanzierung'' (date d) (strOf (time d))
                (duration d) (email d) of
           Throws \<Rightarrow> (msgError, s\<lparr>stage := awaiting_email\<rparr>)
         | Returns Busy \<Rightarrow> (msgBusy, s\<lparr>stage := awaiting_time\<rparr>)
         | Returns (Booked ev) \<Rightarrow>
             (msgConfirm_p2 (strOf (date d)) (strOf (time d)) (strOf (email d))
                (meetLink ''kein Link verfuegbar'' ev),
              s\<lparr>stage := completed\<rparr>)))"

definition advance_p2 :: "env \<Rightarrow> session \<Rightarrow> string \<Rightarrow> string \<times> session" where
  \<comment> \<open>the outer \<open>catch\<close> answers with the generic error text; nothing has been written
      to the session by then\<close>
  "advance_p2 e s message =
     (case collect_p2 (toLowerCase message) s of
        Throws \<Rightarrow> (msgError, s)
      | Returns (reply, s1) \<Rightarrow>
          if stage s1 = creating then createBooking_p2 e s1
          else if stage s1 = completed then (msgAlreadyBooked, s1)
          else (reply, s1))"

definition handleUserMessage_p2 ::
  "env \<Rightarrow> sessions \<Rightarrow> string \<Rightarrow> string \<Rightarrow> string \<times> sessions" where
  "handleUserMessage_p2 e ss userPhone message =
     (if \<not> token e then (msgNotConnected, ss)
      else
        let s = (case ss userPhone of None \<Rightarrow> newSession | Some s0 \<Rightarrow> s0);
            (reply, s') = advance_p2 e s message
        in (reply, ss(userPhone \<mapsto> s')))"

subsection \<open>\<open>handleUserMessage\<close> of the second file of \<open>part_003\<close>\<close>

definition msgConfirm_p3 :: "string \<Rightarrow> string \<Rightarrow> string \<Rightarrow> string \<Rightarrow> string" where
  "msgConfirm_p3 d t mail link = msgConfirm_p2 d t mail link"

definition advance_p3 :: "env \<Rightarrow> session \<Rightarrow> string \<Rightarrow> string \<times> session" where
  \<comment> \<open>the stage \<open>creating\<close> is one more branch of the chain here, and the credential is
      looked up inside it; an exception in it reaches the outer \<open>catch\<close>, which answers
      with the generic error text and leaves the session as it is\<close>
  "advance_p3 e s message =
     (let text = toLowerCase message in
      if stage s = start then
        if includesStr text ''termin'' then
          (''Klar! Fuer wann moechten Sie den Termin vereinbaren?'', s\<lparr>stage := awaiting_date\<rparr>)
        else
          (case completion e message of
             Throws \<Rightarrow> (''AI momentan nicht verfuegbar. Bitte spaeter erneut versuchen.'', s)
           | Returns content \<Rightarrow> (aiReply content, s))
      else if stage s = awaiting_date then
        (case match_re date_re text of
           Some m \<Rightarrow>
             (''Super! Zu welcher Uhrzeit am '' @ m @ '' moechten Sie den Termin?'',
              \<lparr>stage = awaiting_time, data = (data s)\<lparr>date := Some m\<rparr>\<rparr>)
         | None \<Rightarrow> (''Bitte geben Sie ein Datum an, z. B. 08.11.2025.'', s))
      else if stage s = awaiting_time then
        (case match_re time_re text of
           Some m \<Rightarrow>
             (''Perfekt. Wie lange soll das Meeting dauern? (z. B. 30 oder 60 Minuten)'',
              \<lparr>stage = awaiting_duration, data = (data s)\<lparr>time := Some (timeGroups m)\<rparr>\<rparr>)
         | None \<Rightarrow> (''Bitte geben Sie eine Uhrzeit an, z. B. 10:00 Uhr.'', s))
      else if stage s = awaiting_duration then
        (case match_re dur_re text of
           Some m \<Rightarrow>
             (msgAskEmail,
              \<lparr>stage = awaiting_email, data = (data s)\<lparr>duration := Some (parseInt m)\<rparr>\<rparr>)
         | None \<Rightarrow> (''Wie lange soll der Termin dauern (in Minuten)?'', s))
      else if stage s = awaiting_email then
        (case match_re email_re text of
           Some m \<Rightarrow> (msgChecking, \<lparr>stage = creating, data = (data s)\<lparr>email := Some m\<rparr>\<rparr>)
         | None \<Rightarrow> (''Bitte geben Sie eine gueltige E-Mail-Adresse an.'', s))
      else if stage s = creating then
        if \<not> token e then (msgNotConnected, s)
        else
          let d = data s in
          (case tryBook e ''Beratungstermin'' (date d)
                  (if truthyStr (time d) then strOf (time d) else []) (duration d) (email d) of
             Throws \<Rightarrow> (msgError, s)
           | Returns Busy \<Rightarrow> (msgBusy, s\<lparr>stage := awaiting_time\<rparr>)
           | Returns (Booked ev) \<Rightarrow>
               (msgConfirm_p3 (strOf (date d)) (strOf (time d)) (strOf (email d))
                  (meetLink ''kein Link verfuegbar'' ev),
                s\<lparr>stage := completed\<rparr>))
      else if stage s = completed then (msgAlreadyBooked, s)
      else ([], s))"

definition handleUserMessage_p3 ::
  "env \<Rightarrow> sessions \<Rightarrow> string \<Rightarrow> string \<Rightarrow> string \<times> sessions" where
  "handleUserMessage_p3 e ss userPhone message =
     (let s = (case ss userPhone of None \<Rightarrow> newSession | Some s0 \<Rightarrow> s0);
          (reply, s') = advance_p3 e s message
      in (reply, ss(userPhone \<mapsto> s')))"

subsection \<open>The \<open>/twilio/incoming-sms\<close> handler of the first file of \<open>part_001\<close>\<close>

definition msgCalendarOff :: string where
  "msgCalendarOff = ''Kalender nicht verbunden. Bitte kontaktieren Sie uns.''"

definition msgCreateFailed :: string where
  "msgCreateFailed =
     ''Es gab einen Fehler beim Erstellen des Termins. Bitte versuchen Sie es erneut oder kontaktieren Sie uns.''"

definition collect_p1 :: "env \<Rightarrow> string \<Rightarrow> session \<Rightarrow> (string \<times> session) outcome" where
  \<comment> \<open>an exception of the completion call is not caught here\<close>
  "collect_p1 e body s =
     (let text = toLowerCase body in
      if stage s = start then
        if includesStr text ''termin'' then
          Returns (''Klar! Fuer wann moechten Sie den Termin vereinbaren? (z. B. 08.11.2025)'',
                   s\<lparr>stage := awaiting_date\<rparr>)
        else
          (case completion e body of
             Throws \<Rightarrow> Throws
           | Returns content \<Rightarrow> Returns (aiReply content, s))
      else if stage s = awaiting_date then
        (case match_re date_re text of
           Some m \<Rightarrow>
             Returns (''Super! Zu welcher Uhrzeit am '' @ m
                        @ '' wuerde es Ihnen passen? (z. B. 10:00)'',
                      \<lparr>stage = awaiting_time, data = (data s)\<lparr>date := Some m\<rparr>\<rparr>)
         | None \<Rightarrow>
             Returns (''Bitte geben Sie ein Datum im Format TT.MM.JJJJ an, z. B. 08.11.2025.'', s))
      else if stage s = awaiting_time then
        (case match_re time_re text of
           Some m \<Rightarrow>
             Returns (''Perfekt. Wie lange soll das Meeting dauern? (z. B. 30 oder 60 Minuten)'',
                      \<lparr>stage = awaiting_duration, data = (data s)\<lparr>time := Some m\<rparr>\<rparr>)
         | None \<Rightarrow> Returns (''Bitte geben Sie eine Uhrzeit an, z. B. 10 oder 10:00.'', s))
      else if stage s = awaiting_duration then
        (case match_re dur_re text of
           Some m \<Rightarrow>
             let d = (data s)\<lparr>duration := Some (parseInt m)\<rparr> in
             if \<not> truthyStr (email d) then
               Returns (''Alles klar. Bitte geben Sie Ihre E-Mail-Adresse an, damit ich die Einladung senden kann.'',
                        \<lparr>stage = awaiting_email, data = d\<rparr>)
             else
               Returns (''Alles klar - ich trage den Termin ein, einen Moment bitte ...'',
                        \<lparr>stage = creating, data = d\<rparr>)
         | None \<Rightarrow> Returns (''Bitte geben Sie die Dauer in Minuten an, z. B. 30 oder 60.'', s))
      else if stage s = awaiting_email then
        (case match_re email_re text of
           Some m \<Rightarrow>
             Returns (''Danke - ich ueberpruefe jetzt den Terminkalender ...'',
                      \<lparr>stage = creating, data = (data s)\<lparr>email := Some m\<rparr>\<rparr>)
         | None \<Rightarrow> Returns (''Bitte senden Sie eine gueltige E-Mail-Adresse.'', s))
      else Returns ([], s))"

definition createBooking_p1 :: "env \<Rightarrow> session \<Rightarrow> string \<times> session" where
  \<comment> \<open>the \<open>catch\<close> of this version sets the reply only\<close>
  "createBooking_p1 e s =
     (if \<not> token e then (msgCalendarOff, s)
      else
        let d = data s in
        (case tryBook e ''Beratungstermin'' (date d)
                (if truthyStr (time d) then strOf (time d) else [])
                (if truthyNum (duration d) then duration d else Some 30) (email d) of
           Throws \<Rightarrow> (msgCreateFailed, s)
         | Returns Busy \<Rightarrow> (msgBusy, s\<lparr>stage := awaiting_time\<rparr>)
         | Returns (Booked ev) \<Rightarrow>
             (''Ihr Termin am '' @ strOf (date d) @ '' um '' @ strOf (time d)
                @ '' wurde eingetragen. Einladung an '' @ strOf (email d)
                @ '' gesendet. Link: '' @ meetLink ''kein Link verfuegbar'' ev,
              s\<lparr>stage := completed\<rparr>)))"

definition incomingSms_p1 ::
  "env \<Rightarrow> sessions \<Rightarrow> string \<Rightarrow> string \<Rightarrow> string option \<times> sessions" where
  \<comment> \<open>the arguments are \<open>req.body.From\<close> and \<open>req.body.Body\<close>; the result is the text
      handed to \<open>sendSms\<close> (\<open>None\<close> when the request is answered with 400 or 500
      before) and the sessions\<close>
  "incomingSms_p1 e ss from rawBody =
     (if from = [] then (None, ss)
      else
        let phone = normalizePhone (defaultCountry e) from;
            s = (case ss phone of None \<Rightarrow> newSession | Some s0 \<Rightarrow> s0)
        in (case collect_p1 e (trim rawBody) s of
              Throws \<Rightarrow> (None, ss)
            | Returns (reply, s1) \<Rightarrow>
                let (reply', s') =
                      (if stage s1 = creating then createBooking_p1 e s1 else (reply, s1))
                in (Some reply', ss(phone \<mapsto> s'))))"

definition allPresent :: "booking \<Rightarrow> bool" where
  \<comment> \<open>the negation of \<open>!date || !time || !duration || !email\<close>\<close>
  "allPresent d =
     (truthyStr (date d) \<and> truthyStr (time d) \<and> truthyNum (duration d) \<and> truthyStr (email d))"

section \<open>Runs and sample worlds\<close>

text \<open>A run is a list of turns: the world of the turn, the user key and the inbound text.\<close>

fun run :: "(env \<times> string \<times> string) list \<Rightarrow> sessions \<Rightarrow> sessions" where
  "run [] ss = ss"
| "run ((e, userId, message) # ts) ss = run ts (snd (handleUserMessage e ss userId message))"

fun run_p3 :: "(env \<times> string \<times> string) list \<Rightarrow> sessions \<Rightarrow> sessions" where
  "run_p3 [] ss = ss"
| "run_p3 ((e, userId, message) # ts) ss =
     run_p3 ts (snd (handleUserMessage_p3 e ss userId message))"

definition sampleEvent :: event where
  "sampleEvent = \<lparr>hangoutLink = Some ''https://meet.example/abc'', entryUri = None\<rparr>"

definition sampleEnv :: "bool \<Rightarrow> bool outcome \<Rightarrow> env" where
  \<comment> \<open>a world for the concrete runs below: is the credential stored, and what the
      conflict check answers\<close>
  "sampleEnv tok slot =
     \<lparr>token = tok,
      instants = (\<lambda>d t n. Returns (d @ ''T'' @ t, d @ ''T'' @ t @ ''+'')),
      isSlotFree = (\<lambda>a b. slot),
      createEvent = (\<lambda>summary a b mail. Returns sampleEvent),
      completion = (\<lambda>body. Returns (Some ''Hallo'')),
      defaultCountry = ''+49''\<rparr>"

definition sampleData :: booking where
  "sampleData = emptyData\<lparr>date := Some ''08.11.2025'', time := Some ''10:00'',
                           duration := Some 30, email := Some ''a@b.com''\<rparr>"

section \<open>Phone normalisation\<close>

lemma isDigit_not_space: "isDigit c \<Longrightarrow> \<not> isWhiteSpace c"
  by (auto simp: isDigit_def isWhiteSpace_def Let_def)

lemma filter_digit_dropWhile: "filter isDigit (dropWhile isWhiteSpace s) = filter isDigit s"
  by (induction s) (auto dest: isDigit_not_space)

lemma filter_digit_trim: "filter isDigit (trim s) = filter isDigit s"
proof -
  have "filter isDigit (trim s) = rev (filter isDigit (dropWhile isWhiteSpace (rev (dropWhile isWhiteSpace s))))"
    by (simp add: trim_def rev_filter)
  also have "\<dots> = rev (filter isDigit (rev (dropWhile isWhiteSpace s)))"
    by (simp only: filter_digit_dropWhile)
  also have "\<dots> = filter isDigit (dropWhile isWhiteSpace s)"
    by (simp add: rev_filter)
  finally show ?thesis by (simp add: filter_digit_dropWhile)
qed

lemma trim_id:
  assumes "s \<noteq> []" "\<not> isWhiteSpace (hd s)" "\<not> isWhiteSpace (last s)"
  shows "trim s = s"
proof -
  from assms have a: "dropWhile isWhiteSpace s = s"
    by (cases s) auto
  from assms have "dropWhile isWhiteSpace (rev s) = rev s"
    by (cases "rev s") (auto simp: last_rev [symmetric] hd_rev)
  with a show ?thesis by (simp add: trim_def)
qed

lemma plus_not_space: "\<not> isWhiteSpace CHR ''+''"
  by (simp add: isWhiteSpace_def)

text \<open>
  C7, as the code has it. The empty string is returned as it is. Any other input is
  trimmed first: when the trimmed text begins with \<open>+\<close> the trimmed text is the result
  (the input itself when it begins with \<open>+\<close> and does not end in white space);
  otherwise the result is the default country code followed by the digits of the input.
  The leading zero of a national number is a digit like the others: \<open>0170 1234567\<close>
  with the default \<open>+49\<close> becomes \<open>+4901701234567\<close>.
\<close>

theorem normalizePhone_cases:
  "normalizePhone dc [] = []
   \<and> (p \<noteq> [] \<and> startsWith (trim p) ''+'' \<longrightarrow> normalizePhone dc p = trim p)
   \<and> (startsWith p ''+'' \<and> \<not> isWhiteSpace (last p) \<longrightarrow> normalizePhone dc p = p)
   \<and> (p \<noteq> [] \<and> \<not> startsWith (trim p) ''+'' \<longrightarrow>
        normalizePhone dc p = dc @ filter isDigit p)
   \<and> normalizePhone ''+49'' ''0170 1234567'' = ''+4901701234567''"
proof (intro conjI impI)
  show "normalizePhone dc [] = []"
    by (simp add: normalizePhone_def)
  show "normalizePhone dc p = trim p" if "p \<noteq> [] \<and> startsWith (trim p) ''+''"
    using that by (simp add: normalizePhone_def)
  show "normalizePhone dc p = p" if h: "startsWith p ''+'' \<and> \<not> isWhiteSpace (last p)"
  proof -
    from h obtain cs where p: "p = CHR ''+'' # cs"
      by (cases p) auto
    with h have "trim p = p"
      by (intro trim_id) (auto simp: plus_not_space)
    with p show ?thesis
      by (simp add: normalizePhone_def)
  qed
  show "normalizePhone dc p = dc @ filter isDigit p"
    if "p \<noteq> [] \<and> \<not> startsWith (trim p) ''+''"
    using that by (simp add: normalizePhone_def filter_digit_trim)
  show "normalizePhone ''+49'' ''0170 1234567'' = ''+4901701234567''"
    by code_simp
qed

theorem normalizePhone_cases_witness:
  "normalizePhone ''+49'' '' +1 555 '' = ''+1 555''
   \<and> normalizePhone ''+49'' ''+1 555'' = ''+1 555''
   \<and> normalizePhone ''+49'' ''(030) 12-3'' = ''+49030123''"
proof -
  have a: "'' +1 555 '' \<noteq> [] \<and> startsWith (trim '' +1 555 '') ''+''"
    by code_simp
  have b: "startsWith ''+1 555'' ''+'' \<and> \<not> isWhiteSpace (last ''+1 555'')"
    by code_simp
  have c: "''(030) 12-3'' \<noteq> [] \<and> \<not> startsWith (trim ''(030) 12-3'') ''+''"
    by code_simp
  have t: "trim '' +1 555 '' = ''+1 555''"
    by code_simp
  have f: "filter isDigit ''(030) 12-3'' = ''030123''"
    by code_simp
  from normalizePhone_cases [of "''+49''" "'' +1 555 ''"] a t
  have 1: "normalizePhone ''+49'' '' +1 555 '' = ''+1 555''" by simp
  from normalizePhone_cases [of "''+49''" "''+1 555''"] b
  have 2: "normalizePhone ''+49'' ''+1 555'' = ''+1 555''" by blast
  from normalizePhone_cases [of "''+49''" "''(030) 12-3''"] c f
  have 3: "normalizePhone ''+49'' ''(030) 12-3'' = ''+49030123''" by simp
  from 1 2 3 show ?thesis by blast
qed

text \<open>
  C7 as it is written fails on its own example (the zero is kept), on an input that
  begins with \<open>+\<close> and ends in white space (it is trimmed, not returned unchanged)
  and on the empty string (no country code is put in front).
\<close>

theorem normalizePhone_counterexample:
  "normalizePhone ''+49'' ''0170 1234567'' \<noteq> ''+491701234567''
   \<and> startsWith ''+1 '' ''+'' \<and> normalizePhone ''+49'' ''+1 '' \<noteq> ''+1 ''
   \<and> \<not> startsWith [] ''+'' \<and> normalizePhone ''+49'' [] \<noteq> ''+49'' @ filter isDigit []"
  by code_simp

section \<open>The turn of \<open>src/backend/serverv3.js\<close>, stage by stage\<close>

lemma collect_creating: "stage s = creating \<Longrightarrow> collect c t s = ([], s)"
  by (simp add: collect_def)

lemma collect_completed: "stage s = completed \<Longrightarrow> collect c t s = ([], s)"
  by (simp add: collect_def)

lemma advance_creating: "stage s = creating \<Longrightarrow> advance e s m = createBooking e s"
  by (simp add: advance_def collect_creating)

lemma advance_completed: "stage s = completed \<Longrightarrow> advance e s m = (msgAlreadyBooked, s)"
  by (simp add: advance_def collect_completed)

lemma advance_email:
  "stage s = awaiting_email \<Longrightarrow> match_re email_re (cleanText m) = Some a \<Longrightarrow>
   advance e s m = createBooking e \<lparr>stage = creating, data = (data s)\<lparr>email := Some a\<rparr>\<rparr>"
  by (simp add: advance_def collect_def)

lemma advance_duration:
  "stage s = awaiting_duration \<Longrightarrow> match_re dur_re (cleanText m) = Some z \<Longrightarrow>
   advance e s m =
     (msgAskEmail, \<lparr>stage = awaiting_email, data = (data s)\<lparr>duration := Some (parseInt z)\<rparr>\<rparr>)"
  by (simp add: advance_def collect_def)

lemma handle_connected:
  "token e \<Longrightarrow> ss u = Some s \<Longrightarrow>
   handleUserMessage e ss u m = (fst (advance e s m), ss(u \<mapsto> snd (advance e s m)))"
  by (simp add: handleUserMessage_def split: prod.splits)

lemma handle_new:
  "token e \<Longrightarrow> ss u = None \<Longrightarrow>
   handleUserMessage e ss u m =
     (fst (advance e newSession m), ss(u \<mapsto> snd (advance e newSession m)))"
  by (simp add: handleUserMessage_def split: prod.splits)

lemma handle_disconnected: "\<not> token e \<Longrightarrow> handleUserMessage e ss u m = (msgNotConnected, ss)"
  by (simp add: handleUserMessage_def)

lemma createBooking_missing:
  "\<not> truthyStr (date (data s)) \<or> \<not> truthyStr (time (data s))
     \<or> \<not> truthyNum (duration (data s)) \<or> \<not> truthyStr (email (data s)) \<Longrightarrow>
   createBooking e s = (msgMissing, s\<lparr>stage := firstMissing (data s)\<rparr>)"
  by (simp add: createBooking_def Let_def)

lemma createBooking_complete:
  "truthyStr (date (data s)) \<Longrightarrow> truthyStr (time (data s)) \<Longrightarrow>
   truthyNum (duration (data s)) \<Longrightarrow> truthyStr (email (data s)) \<Longrightarrow>
   createBooking e s =
     (case tryBook e ''Beratungstermin zur Finanzierung'' (date (data s)) (strOf (time (data s)))
             (duration (data s)) (email (data s)) of
        Throws \<Rightarrow> (msgError, s\<lparr>stage := awaiting_email\<rparr>)
      | Returns Busy \<Rightarrow> (msgBusy, s\<lparr>stage := awaiting_time\<rparr>)
      | Returns (Booked ev) \<Rightarrow>
          (msgConfirm (strOf (date (data s))) (strOf (time (data s))) (strOf (email (data s)))
             (meetLink ''kein Link verfuegbar'' ev),
           s\<lparr>stage := completed\<rparr>))"
  by (simp add: createBooking_def Let_def)

lemma sample_token: "token (sampleEnv tok slot) = tok"
  by (simp add: sampleEnv_def)

section \<open>C1: a date in the stage \<open>awaiting_date\<close>\<close>

lemma rep_total: "(\<And>t. k t \<noteq> None) \<Longrightarrow> rep p 0 hi k s \<noteq> None"
  by (induction s arbitrary: hi) (auto split: option.splits)

lemma rep_le:
  "(\<And>t r'. k t = Some r' \<Longrightarrow> length r' \<le> length t) \<Longrightarrow> rep p lo hi k s = Some r \<Longrightarrow>
   length r \<le> length s"
proof (induction s arbitrary: lo hi)
  case Nil
  from Nil.prems(2) have "k [] = Some r" by (simp split: if_splits)
  from Nil.prems(1) [OF this] show ?case by simp
next
  case (Cons c cs)
  from Cons.prems(2)
  consider "rep p (lo - 1) (map_option (\<lambda>h. h - 1) hi) k cs = Some r" | "k (c # cs) = Some r"
    by (auto split: if_splits option.splits)
  then show ?case
  proof cases
    case 1
    from Cons.IH [OF Cons.prems(1) 1] show ?thesis by simp
  next
    case 2
    from Cons.prems(1) [OF 2] show ?thesis .
  qed
qed

lemma rep_lt:
  assumes "\<And>t r'. k t = Some r' \<Longrightarrow> length r' \<le> length t"
    and "rep p lo hi k s = Some r" and "0 < lo"
  shows "length r < length s"
proof (cases s)
  case Nil
  with assms(2,3) show ?thesis by simp
next
  case (Cons c cs)
  with assms(2,3) have "rep p (lo - 1) (map_option (\<lambda>h. h - 1) hi) k cs = Some r"
    by (auto split: if_splits option.splits)
  from rep_le [OF assms(1) this] Cons show ?thesis by simp
qed

lemma time_tail_le:
  "opt (\<lambda>k'. lit CHR '':'' (rep isDigit 2 (Some 2) k')) Some t = Some r \<Longrightarrow> length r \<le> length t"
proof -
  assume a: "opt (\<lambda>k'. lit CHR '':'' (rep isDigit 2 (Some 2) k')) Some t = Some r"
  show ?thesis
  proof (cases "lit CHR '':'' (rep isDigit 2 (Some 2) Some) t")
    case None
    with a show ?thesis by (simp add: opt_def)
  next
    case (Some x)
    with a have rx: "r = x" by (simp add: opt_def)
    from Some obtain cs where t: "t = CHR '':'' # cs" and "rep isDigit 2 (Some 2) Some cs = Some x"
      by (auto simp: lit_def split: list.splits if_splits)
    then have "length x \<le> length cs"
      using rep_le [of Some isDigit 2 "Some 2" cs x] by simp
    with t rx show ?thesis by simp
  qed
qed

lemma time_match_nonempty: "match_re time_re s = Some t \<Longrightarrow> t \<noteq> []"
proof (induction s)
  case Nil
  then show ?case by (simp add: time_re_def)
next
  case (Cons c cs)
  show ?case
  proof (cases "time_re Some (c # cs)")
    case None
    with Cons show ?thesis by simp
  next
    case (Some r)
    then have "length r < length (c # cs)"
      unfolding time_re_def by (rule rep_lt [rotated]) (auto dest: time_tail_le)
    with Some Cons.prems show ?thesis by auto
  qed
qed

lemma time_at_digit: "isDigit c \<Longrightarrow> time_re Some (c # cs) \<noteq> None"
proof -
  assume d: "isDigit c"
  have "rep isDigit 0 (Some 1) (opt (\<lambda>k'. lit CHR '':'' (rep isDigit 2 (Some 2) k')) Some) cs \<noteq> None"
    by (rule rep_total) (simp add: opt_def split: option.splits)
  with d show ?thesis
    by (auto simp: time_re_def split: option.splits)
qed

lemma time_match_digit: "\<exists>x\<in>set s. isDigit x \<Longrightarrow> match_re time_re s \<noteq> None"
proof (induction s)
  case Nil
  then show ?case by simp
next
  case (Cons c cs)
  show ?case
  proof (cases "isDigit c")
    case True
    from time_at_digit [OF this, of cs] show ?thesis by (auto split: option.splits)
  next
    case False
    with Cons show ?thesis by (auto split: option.splits)
  qed
qed

lemma rep_needs: "0 < lo \<Longrightarrow> s = [] \<or> \<not> p (hd s) \<Longrightarrow> rep p lo hi k s = None"
  by (cases s) auto

lemma date_match_digit: "match_re date_re s = Some d \<Longrightarrow> \<exists>x\<in>set s. isDigit x"
proof (induction s)
  case Nil
  then show ?case by (simp add: date_re_def)
next
  case (Cons c cs)
  show ?case
  proof (cases "isDigit c")
    case True
    then show ?thesis by simp
  next
    case False
    then have "date_re Some (c # cs) = None"
      unfolding date_re_def by (intro rep_needs) simp_all
    with Cons show ?thesis by simp
  qed
qed

lemma date_match_nonempty: "match_re date_re s = Some d \<Longrightarrow> d \<noteq> []"
proof (induction s)
  case Nil
  then show ?case by (simp add: date_re_def)
next
  case (Cons c cs)
  show ?case
  proof (cases "date_re Some (c # cs)")
    case None
    with Cons show ?thesis by simp
  next
    case (Some r)
    have "length r' \<le> length t"
      if "lit CHR ''.'' (rep isDigit 1 (Some 2) (lit CHR ''.'' (rep isDigit 4 (Some 4) Some))) t = Some r'"
      for t r'
    proof -
      from that obtain t1 where t: "t = CHR ''.'' # t1"
        and 1: "rep isDigit 1 (Some 2) (lit CHR ''.'' (rep isDigit 4 (Some 4) Some)) t1 = Some r'"
        by (auto simp: lit_def split: list.splits if_splits)
      have "length r2 \<le> length t2" if "lit CHR ''.'' (rep isDigit 4 (Some 4) Some) t2 = Some r2" for t2 r2
      proof -
        from that obtain t3 where t2: "t2 = CHR ''.'' # t3" and "rep isDigit 4 (Some 4) Some t3 = Some r2"
          by (auto simp: lit_def split: list.splits if_splits)
        then have "length r2 \<le> length t3" using rep_le [of Some isDigit 4 "Some 4" t3 r2] by simp
        with t2 show ?thesis by simp
      qed
      from rep_le [OF this 1] t show ?thesis by simp
    qed
    with Some have "length r < length (c # cs)"
      unfolding date_re_def by (intro rep_lt [of _ isDigit 1 "Some 2" "c # cs" r]) auto
    with Some Cons.prems show ?thesis by auto
  qed
qed

text \<open>
  C1 (the code departs from it). In \<open>src/backend/serverv3.js\<close> the branch of the stages
  \<open>start\<close> and \<open>awaiting_date\<close> looks for a date and for a time in the same text, and
  the pattern of the time matches the first digits of the date. A user who asks for a
  \<open>Termin\<close> and then sends \<open>08.11.2025\<close> is therefore not asked for the time: the
  session holds the time \<open>08\<close> and waits for the duration.
\<close>

theorem date_turn_stores_time_too:
  "run [(sampleEnv True (Returns True), ''u'', ''Ich brauche einen Termin''),
        (sampleEnv True (Returns True), ''u'', ''08.11.2025'')] Map.empty ''u''
   = Some \<lparr>stage = awaiting_duration,
           data = emptyData\<lparr>date := Some ''08.11.2025'', time := Some ''08''\<rparr>\<rparr>"
proof -
  have t: "token (sampleEnv True (Returns True))"
    by (simp add: sample_token)
  have 1: "advance (sampleEnv True (Returns True)) newSession ''Ich brauche einen Termin''
           = (''Klar! '' @ msgAskDate, \<lparr>stage = awaiting_date, data = emptyData\<rparr>)"
    by code_simp
  have 2: "advance (sampleEnv True (Returns True)) \<lparr>stage = awaiting_date, data = emptyData\<rparr>
             ''08.11.2025''
           = (msgAskDuration,
              \<lparr>stage = awaiting_duration,
               data = emptyData\<lparr>date := Some ''08.11.2025'', time := Some ''08''\<rparr>\<rparr>)"
    by code_simp
  show ?thesis
    by (simp add: handle_new [OF t] handle_connected [OF t] 1 2)
qed

text \<open>
  The input above is no special case. A match of the date pattern holds a digit, and
  the pattern of the time matches at the first digit of the text: whenever this branch
  finds a date it finds a time as well, and the stage becomes \<open>awaiting_duration\<close>.
\<close>

lemma date_turn_never_asks_time:
  assumes "stage s = awaiting_date" and "match_re date_re (cleanText m) = Some d"
  shows "\<exists>t. match_re time_re (cleanText m) = Some t
           \<and> advance e s m
               = (msgAskDuration,
                  \<lparr>stage = awaiting_duration, data = (data s)\<lparr>date := Some d, time := Some t\<rparr>\<rparr>)"
proof -
  from date_match_digit [OF assms(2)] time_match_digit [of "cleanText m"]
  obtain t where t: "match_re time_re (cleanText m) = Some t" by auto
  from date_match_nonempty [OF assms(2)] time_match_nonempty [OF t]
  have "d \<noteq> []" "t \<noteq> []" by simp_all
  with assms t have "advance e s m
      = (msgAskDuration,
         \<lparr>stage = awaiting_duration, data = (data s)\<lparr>date := Some d, time := Some t\<rparr>\<rparr>)"
    by (simp add: advance_def collect_def Let_def truthyStr_def)
  with t show ?thesis by simp
qed

text \<open>
  The handler of \<open>part_001\<close> does what the claim says, on the trimmed and lower-cased text: a
  match of the date pattern is stored and the stage becomes \<open>awaiting_time\<close>; without
  a match the session stays as it is.
\<close>

lemma collect_p1_date:
  "stage s = awaiting_date \<Longrightarrow>
   (case match_re date_re (toLowerCase body) of
      Some m \<Rightarrow> \<exists>r. collect_p1 e body s
                     = Returns (r, \<lparr>stage = awaiting_time, data = (data s)\<lparr>date := Some m\<rparr>\<rparr>)
    | None \<Rightarrow> \<exists>r. collect_p1 e body s = Returns (r, s))"
  by (simp add: collect_p1_def split: option.splits)

section \<open>The turns of the other versions\<close>

lemma collect_p2_creating: "stage s = creating \<Longrightarrow> collect_p2 t s = Returns ([], s)"
  by (simp add: collect_p2_def)

lemma advance_p2_creating: "stage s = creating \<Longrightarrow> advance_p2 e s m = createBooking_p2 e s"
  by (simp add: advance_p2_def collect_p2_creating)

lemma handle_p2_connected:
  "token e \<Longrightarrow> ss u = Some s \<Longrightarrow>
   handleUserMessage_p2 e ss u m = (fst (advance_p2 e s m), ss(u \<mapsto> snd (advance_p2 e s m)))"
  by (simp add: handleUserMessage_p2_def split: prod.splits)

lemma handle_p2_disconnected:
  "\<not> token e \<Longrightarrow> handleUserMessage_p2 e ss u m = (msgNotConnected, ss)"
  by (simp add: handleUserMessage_p2_def)

lemma createBooking_p2_missing:
  "\<not> allPresent (data s) \<Longrightarrow>
   createBooking_p2 e s = (msgMissing_p2, s\<lparr>stage := firstMissing (data s)\<rparr>)"
  by (auto simp: createBooking_p2_def allPresent_def Let_def)

lemma handle_p3_known:
  "ss u = Some s \<Longrightarrow>
   handleUserMessage_p3 e ss u m = (fst (advance_p3 e s m), ss(u \<mapsto> snd (advance_p3 e s m)))"
  by (simp add: handleUserMessage_p3_def split: prod.splits)

lemma advance_p3_completed: "stage s = completed \<Longrightarrow> advance_p3 e s m = (msgAlreadyBooked, s)"
  by (simp add: advance_p3_def)

lemma advance_p3_disconnected:
  "stage s = creating \<Longrightarrow> \<not> token e \<Longrightarrow> advance_p3 e s m = (msgNotConnected, s)"
  by (simp add: advance_p3_def)


lemma collect_p1_creating: "stage s = creating \<Longrightarrow> collect_p1 e b s = Returns ([], s)"
  by (simp add: collect_p1_def)

lemma collect_p1_email:
  "stage s = awaiting_email \<Longrightarrow> match_re email_re (toLowerCase b) = Some a \<Longrightarrow>
   collect_p1 e b s =
     Returns (''Danke - ich ueberpruefe jetzt den Terminkalender ...'',
              \<lparr>stage = creating, data = (data s)\<lparr>email := Some a\<rparr>\<rparr>)"
  by (simp add: collect_p1_def)

lemma sms_known:
  "sender \<noteq> [] \<Longrightarrow> ss (normalizePhone (defaultCountry e) sender) = Some s \<Longrightarrow>
   collect_p1 e (trim body) s = Returns (r, s1) \<Longrightarrow> stage s1 = creating \<Longrightarrow>
   incomingSms_p1 e ss sender body =
     (Some (fst (createBooking_p1 e s1)),
      ss(normalizePhone (defaultCountry e) sender \<mapsto> snd (createBooking_p1 e s1)))"
  by (simp add: incomingSms_p1_def Let_def split: prod.splits)

lemma createBooking_p1_disconnected: "\<not> token e \<Longrightarrow> createBooking_p1 e s = (msgCalendarOff, s)"
  by (simp add: createBooking_p1_def)

lemma createBooking_p1_complete:
  "token e \<Longrightarrow> date (data s) = Some dv \<Longrightarrow> time (data s) = Some tv \<Longrightarrow> tv \<noteq> [] \<Longrightarrow>
   duration (data s) = Some n \<Longrightarrow> n \<noteq> 0 \<Longrightarrow> email (data s) = Some mv \<Longrightarrow>
   createBooking_p1 e s =
     (case tryBook e ''Beratungstermin'' (Some dv) tv (Some n) (Some mv) of
        Throws \<Rightarrow> (msgCreateFailed, s)
      | Returns Busy \<Rightarrow> (msgBusy, s\<lparr>stage := awaiting_time\<rparr>)
      | Returns (Booked ev) \<Rightarrow>
          (''Ihr Termin am '' @ dv @ '' um '' @ tv
             @ '' wurde eingetragen. Einladung an '' @ mv
             @ '' gesendet. Link: '' @ meetLink ''kein Link verfuegbar'' ev,
           s\<lparr>stage := completed\<rparr>))"
  by (simp add: createBooking_p1_def Let_def truthyStr_def truthyNum_def strOf_def
        split: outcome.splits booked.splits)

lemma allPresent_fields:
  "date d = Some dv \<Longrightarrow> dv \<noteq> [] \<Longrightarrow> time d = Some tv \<Longrightarrow> tv \<noteq> [] \<Longrightarrow>
   duration d = Some n \<Longrightarrow> n \<noteq> 0 \<Longrightarrow> email d = Some mv \<Longrightarrow> mv \<noteq> [] \<Longrightarrow> allPresent d"
  by (simp add: allPresent_def truthyStr_def truthyNum_def)

lemma createBooking_fields:
  "date (data s) = Some dv \<Longrightarrow> dv \<noteq> [] \<Longrightarrow> time (data s) = Some tv \<Longrightarrow> tv \<noteq> [] \<Longrightarrow>
   duration (data s) = Some n \<Longrightarrow> n \<noteq> 0 \<Longrightarrow> email (data s) = Some mv \<Longrightarrow> mv \<noteq> [] \<Longrightarrow>
   createBooking e s =
     (case tryBook e ''Beratungstermin zur Finanzierung'' (Some dv) tv (Some n) (Some mv) of
        Throws \<Rightarrow> (msgError, s\<lparr>stage := awaiting_email\<rparr>)
      | Returns Busy \<Rightarrow> (msgBusy, s\<lparr>stage := awaiting_time\<rparr>)
      | Returns (Booked ev) \<Rightarrow>
          (msgConfirm dv tv mv (meetLink ''kein Link verfuegbar'' ev), s\<lparr>stage := completed\<rparr>))"
  by (simp add: createBooking_def Let_def truthyStr_def truthyNum_def strOf_def
        split: outcome.splits booked.splits)

section \<open>C2: an exception while the event is created\<close>

text \<open>
  C2, as the code has it. The session holds date \<open>dv\<close>, time \<open>tv\<close>, duration \<open>n\<close> and
  e-mail \<open>mv\<close>, a credential is stored, and computing the instants, the conflict check
  or the creation of the event throws. In \<open>src/backend/serverv3.js\<close> the turn answers
  with the generic error text and sets the stage to \<open>awaiting_email\<close>, whether the turn
  began in \<open>creating\<close> or came there from \<open>awaiting_email\<close> with the e-mail address of
  this message; nothing else of the session changes. In the handler of \<open>part_001\<close> the
  turn answers with its own error text and leaves the session as it is, in the stage
  \<open>creating\<close>.
\<close>

theorem creating_exception:
  assumes "token e"
    and "date (data s) = Some dv" "dv \<noteq> []" "time (data s) = Some tv" "tv \<noteq> []"
    and "duration (data s) = Some n" "n \<noteq> 0"
  shows
    "(ss u = Some s \<and> stage s = creating \<and> email (data s) = Some mv \<and> mv \<noteq> []
        \<and> tryBook e ''Beratungstermin zur Finanzierung'' (Some dv) tv (Some n) (Some mv) = Throws
      \<longrightarrow> handleUserMessage e ss u m = (msgError, ss(u \<mapsto> s\<lparr>stage := awaiting_email\<rparr>)))
     \<and> (ss u = Some s \<and> stage s = awaiting_email
          \<and> match_re email_re (cleanText m) = Some mv \<and> mv \<noteq> []
          \<and> tryBook e ''Beratungstermin zur Finanzierung'' (Some dv) tv (Some n) (Some mv) = Throws
        \<longrightarrow> handleUserMessage e ss u m
              = (msgError, ss(u \<mapsto> \<lparr>stage = awaiting_email, data = (data s)\<lparr>email := Some mv\<rparr>\<rparr>)))
     \<and> (sender \<noteq> [] \<and> ss (normalizePhone (defaultCountry e) sender) = Some s
          \<and> stage s = creating \<and> email (data s) = Some mv
          \<and> tryBook e ''Beratungstermin'' (Some dv) tv (Some n) (Some mv) = Throws
        \<longrightarrow> incomingSms_p1 e ss sender body
              = (Some msgCreateFailed, ss(normalizePhone (defaultCountry e) sender \<mapsto> s)))"
proof (intro conjI impI)
  assume h: "ss u = Some s \<and> stage s = creating \<and> email (data s) = Some mv \<and> mv \<noteq> []
    \<and> tryBook e ''Beratungstermin zur Finanzierung'' (Some dv) tv (Some n) (Some mv) = Throws"
  then have "createBooking e s = (msgError, s\<lparr>stage := awaiting_email\<rparr>)"
    using assms by (simp add: createBooking_fields [of s dv tv n mv])
  with h assms(1) show "handleUserMessage e ss u m = (msgError, ss(u \<mapsto> s\<lparr>stage := awaiting_email\<rparr>))"
    by (simp add: handle_connected advance_creating)
next
  let ?s1 = "\<lparr>stage = creating, data = (data s)\<lparr>email := Some mv\<rparr>\<rparr>"
  assume h: "ss u = Some s \<and> stage s = awaiting_email
    \<and> match_re email_re (cleanText m) = Some mv \<and> mv \<noteq> []
    \<and> tryBook e ''Beratungstermin zur Finanzierung'' (Some dv) tv (Some n) (Some mv) = Throws"
  then have "createBooking e ?s1 = (msgError, ?s1\<lparr>stage := awaiting_email\<rparr>)"
    using assms by (simp add: createBooking_fields [of ?s1 dv tv n mv])
  with h assms(1)
  show "handleUserMessage e ss u m
        = (msgError, ss(u \<mapsto> \<lparr>stage = awaiting_email, data = (data s)\<lparr>email := Some mv\<rparr>\<rparr>))"
    by (simp add: handle_connected advance_email)
next
  assume h: "sender \<noteq> [] \<and> ss (normalizePhone (defaultCountry e) sender) = Some s
    \<and> stage s = creating \<and> email (data s) = Some mv
    \<and> tryBook e ''Beratungstermin'' (Some dv) tv (Some n) (Some mv) = Throws"
  then have "createBooking_p1 e s = (msgCreateFailed, s)"
    using assms by (simp add: createBooking_p1_complete [of e s dv tv n mv])
  with h show "incomingSms_p1 e ss sender body
        = (Some msgCreateFailed, ss(normalizePhone (defaultCountry e) sender \<mapsto> s))"
    by (simp add: sms_known [of sender ss e s body "[]" s] collect_p1_creating)
qed

lemma sampleData_fields:
  "date sampleData = Some ''08.11.2025''" "time sampleData = Some ''10:00''"
  "duration sampleData = Some 30" "email sampleData = Some ''a@b.com''"
  by (simp_all add: sampleData_def emptyData_def)

lemma sample_tryBook_throws:
  "tryBook (sampleEnv tok Throws) summary (Some dv) tv n mail = Throws"
  by (simp add: tryBook_def computeInstants_def sampleEnv_def)

lemma sample_phone: "normalizePhone (defaultCountry (sampleEnv tok slot)) ''+491'' = ''+491''"
  by (simp add: sampleEnv_def normalizePhone_def trim_def isWhiteSpace_def)

theorem creating_exception_witness:
  "handleUserMessage (sampleEnv True Throws) [''u'' \<mapsto> \<lparr>stage = creating, data = sampleData\<rparr>]
       ''u'' ''ok''
     = (msgError, [''u'' \<mapsto> \<lparr>stage = awaiting_email, data = sampleData\<rparr>])
   \<and> incomingSms_p1 (sampleEnv True Throws)
         [''+491'' \<mapsto> \<lparr>stage = creating, data = sampleData\<rparr>] ''+491'' ''ok''
       = (Some msgCreateFailed, [''+491'' \<mapsto> \<lparr>stage = creating, data = sampleData\<rparr>])"
proof -
  let ?e = "sampleEnv True Throws"
  let ?s = "\<lparr>stage = creating, data = sampleData\<rparr>"
  have h: "token ?e" "date (data ?s) = Some ''08.11.2025''" "''08.11.2025'' \<noteq> []"
    "time (data ?s) = Some ''10:00''" "''10:00'' \<noteq> []"
    "duration (data ?s) = Some 30" "(30::nat) \<noteq> 0"
    by (simp_all add: sample_token sampleData_fields)
  note c = creating_exception [OF h, where mv = "''a@b.com''"]
  from c [where ss = "[''u'' \<mapsto> ?s]" and u = "''u''" and m = "''ok''"]
  have 1: "handleUserMessage ?e [''u'' \<mapsto> ?s] ''u'' ''ok''
           = (msgError, [''u'' \<mapsto> \<lparr>stage = awaiting_email, data = sampleData\<rparr>])"
    by (simp add: sampleData_fields sample_tryBook_throws)
  from c [where ss = "[''+491'' \<mapsto> ?s]" and sender = "''+491''" and body = "''ok''"]
  have 2: "incomingSms_p1 ?e [''+491'' \<mapsto> ?s] ''+491'' ''ok''
           = (Some msgCreateFailed, [''+491'' \<mapsto> ?s])"
    by (simp add: sampleData_fields sample_tryBook_throws sample_phone)
  from 1 2 show ?thesis by blast
qed

text \<open>
  C2 as it is written fails in the handler of \<open>part_001\<close>: the conflict check throws,
  and the session is still in the stage \<open>creating\<close> after the turn.
\<close>

theorem creating_exception_counterexample:
  "isSlotFree (sampleEnv True Throws) ''08.11.2025T10:00'' ''08.11.2025T10:00+'' = Throws
   \<and> map_option stage
         (snd (incomingSms_p1 (sampleEnv True Throws)
                 [''+491'' \<mapsto> \<lparr>stage = creating, data = sampleData\<rparr>] ''+491'' ''ok'') ''+491'')
       = Some creating"
proof -
  let ?e = "sampleEnv True Throws"
  let ?s = "\<lparr>stage = creating, data = sampleData\<rparr>"
  have "createBooking_p1 ?e ?s = (msgCreateFailed, ?s)"
    by (simp add: createBooking_p1_complete [of ?e ?s "''08.11.2025''" "''10:00''" 30 "''a@b.com''"]
          sample_token sampleData_fields sample_tryBook_throws)
  then have "incomingSms_p1 ?e [''+491'' \<mapsto> ?s] ''+491'' ''ok''
             = (Some msgCreateFailed, [''+491'' \<mapsto> ?s])"
    by (simp add: sms_known [of "''+491''" "[''+491'' \<mapsto> ?s]" ?e ?s "''ok''" "[]" ?s]
          collect_p1_creating sample_phone)
  then show ?thesis
    by (simp add: sampleEnv_def)
qed

section \<open>C3: a field is missing in the stage \<open>creating\<close>\<close>

lemma firstMissing_order:
  "(\<not> truthyStr (date d) \<longrightarrow> firstMissing d = awaiting_date)
   \<and> (truthyStr (date d) \<and> \<not> truthyStr (time d) \<longrightarrow> firstMissing d = awaiting_time)
   \<and> (truthyStr (date d) \<and> truthyStr (time d) \<and> \<not> truthyNum (duration d)
        \<longrightarrow> firstMissing d = awaiting_duration)
   \<and> (truthyStr (date d) \<and> truthyStr (time d) \<and> truthyNum (duration d)
        \<longrightarrow> firstMissing d = awaiting_email)"
  by (simp add: firstMissing_def)

lemma createBooking_absent:
  "\<not> allPresent (data s) \<Longrightarrow>
   createBooking e s = (msgMissing, s\<lparr>stage := firstMissing (data s)\<rparr>)"
  by (intro createBooking_missing) (auto simp: allPresent_def)

lemma advance_p2_email:
  "stage s = awaiting_email \<Longrightarrow> match_re email_re (toLowerCase m) = Some a \<Longrightarrow>
   advance_p2 e s m = createBooking_p2 e \<lparr>stage = creating, data = (data s)\<lparr>email := Some a\<rparr>\<rparr>"
  by (simp add: advance_p2_def collect_p2_def)

text \<open>
  In \<open>src/backend/serverv3.js\<close> and in \<open>part_002\<close> a session is in the stage
  \<open>creating\<close> only inside a turn: the block of that stage runs in the turn that sets the
  stage and always leaves it. No turn of \<open>src/backend/serverv3.js\<close> ends in \<open>creating\<close>,
  and no turn of \<open>part_002\<close> takes a session there that was not there before. A session
  in the stage \<open>creating\<close> is therefore a session of a turn that has passed the
  credential guard at the top of the function.
\<close>

lemma createBooking_not_creating: "stage (snd (createBooking e s)) \<noteq> creating"
  by (simp add: createBooking_def Let_def firstMissing_def split: outcome.splits booked.splits)

lemma createBooking_p2_not_creating: "stage (snd (createBooking_p2 e s)) \<noteq> creating"
  by (simp add: createBooking_p2_def Let_def firstMissing_def split: outcome.splits booked.splits)

lemma advance_not_creating: "stage (snd (advance e s m)) \<noteq> creating"
proof -
  obtain r s1 where c: "collect (cleanText m) (toLowerCase (cleanText m)) s = (r, s1)"
    by (cases "collect (cleanText m) (toLowerCase (cleanText m)) s")
  with createBooking_not_creating [of e s1] show ?thesis
    by (simp add: advance_def Let_def)
qed

lemma advance_p2_not_creating:
  assumes "stage s \<noteq> creating"
  shows "stage (snd (advance_p2 e s m)) \<noteq> creating"
proof (cases "collect_p2 (toLowerCase m) s")
  case Throws
  with assms show ?thesis by (simp add: advance_p2_def)
next
  case (Returns x)
  obtain r s1 where "x = (r, s1)" by (cases x)
  with Returns createBooking_p2_not_creating [of e s1] show ?thesis
    by (simp add: advance_p2_def)
qed

lemma handle_never_rests_in_creating:
  assumes "\<And>k s. ss k = Some s \<Longrightarrow> stage s \<noteq> creating"
    and "snd (handleUserMessage e ss u m) k = Some s'"
  shows "stage s' \<noteq> creating"
proof (cases "token e \<and> k = u")
  case True
  obtain s where s: "s = (case ss u of None \<Rightarrow> newSession | Some s0 \<Rightarrow> s0)" by simp
  from True assms(2) s have "s' = snd (advance e s m)"
    by (simp add: handleUserMessage_def split: prod.splits)
  with advance_not_creating [of e s m] show ?thesis by simp
next
  case False
  with assms(2) have "ss k = Some s'"
    by (auto simp: handleUserMessage_def split: prod.splits if_splits)
  with assms(1) show ?thesis by blast
qed

text \<open>
  C3. A field is missing when it is not set, empty or zero. A credential is stored (the
  turn has the session in the stage \<open>creating\<close>). Whether the turn brought the session
  there from \<open>awaiting_email\<close> with the e-mail address of this message, or found it
  there, when one of date, time, duration and e-mail is missing \<open>handleUserMessage\<close> of
  \<open>src/backend/serverv3.js\<close> and of \<open>part_002\<close> answer with the text that information is
  missing, keep the data and set the stage of the first missing field in the order
  date, time, duration, e-mail; a session that has date and time and lacks the duration
  goes to \<open>awaiting_duration\<close>.
\<close>

theorem creating_missing_field:
  assumes "token e" and "ss u = Some s"
  shows
    "(stage s = awaiting_email \<and> match_re email_re (cleanText m) = Some a
        \<and> \<not> allPresent ((data s)\<lparr>email := Some a\<rparr>) \<longrightarrow>
        handleUserMessage e ss u m
          = (msgMissing,
             ss(u \<mapsto> \<lparr>stage = firstMissing ((data s)\<lparr>email := Some a\<rparr>),
                     data = (data s)\<lparr>email := Some a\<rparr>\<rparr>)))
     \<and> (stage s = awaiting_email \<and> match_re email_re (toLowerCase m) = Some a
          \<and> \<not> allPresent ((data s)\<lparr>email := Some a\<rparr>) \<longrightarrow>
          handleUserMessage_p2 e ss u m
            = (msgMissing_p2,
               ss(u \<mapsto> \<lparr>stage = firstMissing ((data s)\<lparr>email := Some a\<rparr>),
                       data = (data s)\<lparr>email := Some a\<rparr>\<rparr>)))
     \<and> (stage s = creating \<and> \<not> allPresent (data s) \<longrightarrow>
          handleUserMessage e ss u m
            = (msgMissing, ss(u \<mapsto> s\<lparr>stage := firstMissing (data s)\<rparr>))
          \<and> handleUserMessage_p2 e ss u m
              = (msgMissing_p2, ss(u \<mapsto> s\<lparr>stage := firstMissing (data s)\<rparr>)))
     \<and> (\<not> truthyStr (date d) \<longrightarrow> firstMissing d = awaiting_date)
     \<and> (truthyStr (date d) \<and> \<not> truthyStr (time d) \<longrightarrow> firstMissing d = awaiting_time)
     \<and> (truthyStr (date d) \<and> truthyStr (time d) \<and> \<not> truthyNum (duration d)
          \<longrightarrow> firstMissing d = awaiting_duration)
     \<and> (truthyStr (date d) \<and> truthyStr (time d) \<and> truthyNum (duration d)
          \<longrightarrow> firstMissing d = awaiting_email)"
proof -
  let ?d1 = "(data s)\<lparr>email := Some a\<rparr>"
  let ?s1 = "\<lparr>stage = creating, data = ?d1\<rparr>"
  have 1: "handleUserMessage e ss u m
             = (msgMissing, ss(u \<mapsto> \<lparr>stage = firstMissing ?d1, data = ?d1\<rparr>))"
    if h: "stage s = awaiting_email \<and> match_re email_re (cleanText m) = Some a
           \<and> \<not> allPresent ?d1"
  proof -
    from h have "createBooking e ?s1 = (msgMissing, ?s1\<lparr>stage := firstMissing ?d1\<rparr>)"
      using createBooking_absent [of ?s1 e] by simp
    with h assms show ?thesis
      by (simp add: handle_connected advance_email)
  qed
  have 2: "handleUserMessage_p2 e ss u m
             = (msgMissing_p2, ss(u \<mapsto> \<lparr>stage = firstMissing ?d1, data = ?d1\<rparr>))"
    if h: "stage s = awaiting_email \<and> match_re email_re (toLowerCase m) = Some a
           \<and> \<not> allPresent ?d1"
  proof -
    from h have "createBooking_p2 e ?s1 = (msgMissing_p2, ?s1\<lparr>stage := firstMissing ?d1\<rparr>)"
      using createBooking_p2_missing [of ?s1 e] by simp
    with h assms show ?thesis
      by (simp add: handle_p2_connected advance_p2_email)
  qed
  have 3: "handleUserMessage e ss u m
             = (msgMissing, ss(u \<mapsto> s\<lparr>stage := firstMissing (data s)\<rparr>))
           \<and> handleUserMessage_p2 e ss u m
               = (msgMissing_p2, ss(u \<mapsto> s\<lparr>stage := firstMissing (data s)\<rparr>))"
    if h: "stage s = creating \<and> \<not> allPresent (data s)"
    using h assms createBooking_absent [of s e] createBooking_p2_missing [of s e]
    by (simp add: handle_connected handle_p2_connected advance_creating advance_p2_creating)
  from 1 2 3 firstMissing_order [of d] show ?thesis
    by blast
qed

lemma sample_zero_fields:
  "\<not> allPresent (sampleData\<lparr>duration := Some 0\<rparr>)"
  "firstMissing (sampleData\<lparr>duration := Some 0\<rparr>) = awaiting_duration"
  "sampleData\<lparr>duration := Some 0, email := Some ''a@b.com''\<rparr> = sampleData\<lparr>duration := Some 0\<rparr>"
  by (simp_all add: allPresent_def firstMissing_def sampleData_def emptyData_def
        truthyStr_def truthyNum_def)

lemma sample_lower_email: "match_re email_re (toLowerCase ''a@b.com'') = Some ''a@b.com''"
  by code_simp

lemma sample_cleaned_email: "match_re email_re (cleanText ''a@b.com'') = Some ''a@b.com''"
  by code_simp

theorem creating_missing_field_witness:
  "handleUserMessage (sampleEnv True (Returns True))
       [''u'' \<mapsto> \<lparr>stage = awaiting_email, data = sampleData\<lparr>duration := Some 0\<rparr>\<rparr>]
       ''u'' ''a@b.com''
     = (msgMissing, [''u'' \<mapsto> \<lparr>stage = awaiting_duration, data = sampleData\<lparr>duration := Some 0\<rparr>\<rparr>])
   \<and> handleUserMessage_p2 (sampleEnv True (Returns True))
       [''u'' \<mapsto> \<lparr>stage = awaiting_email, data = sampleData\<lparr>duration := Some 0\<rparr>\<rparr>]
       ''u'' ''a@b.com''
     = (msgMissing_p2,
        [''u'' \<mapsto> \<lparr>stage = awaiting_duration, data = sampleData\<lparr>duration := Some 0\<rparr>\<rparr>])
   \<and> handleUserMessage (sampleEnv True (Returns True))
       [''u'' \<mapsto> \<lparr>stage = creating, data = sampleData\<lparr>duration := Some 0\<rparr>\<rparr>] ''u'' ''ok''
     = (msgMissing, [''u'' \<mapsto> \<lparr>stage = awaiting_duration, data = sampleData\<lparr>duration := Some 0\<rparr>\<rparr>])"
proof -
  let ?e = "sampleEnv True (Returns True)"
  let ?s = "\<lparr>stage = awaiting_email, data = sampleData\<lparr>duration := Some 0\<rparr>\<rparr>"
  let ?c = "\<lparr>stage = creating, data = sampleData\<lparr>duration := Some 0\<rparr>\<rparr>"
  have t: "token ?e"
    by (simp add: sample_token)
  have hs: "[''u'' \<mapsto> ?s] ''u'' = Some ?s" and hc: "[''u'' \<mapsto> ?c] ''u'' = Some ?c"
    by simp_all
  from creating_missing_field [where e = ?e and ss = "[''u'' \<mapsto> ?s]" and u = "''u''" and s = ?s
         and m = "''a@b.com''" and a = "''a@b.com''", OF t hs]
  have 1: "handleUserMessage ?e [''u'' \<mapsto> ?s] ''u'' ''a@b.com''
             = (msgMissing,
                [''u'' \<mapsto> \<lparr>stage = awaiting_duration, data = sampleData\<lparr>duration := Some 0\<rparr>\<rparr>])
           \<and> handleUserMessage_p2 ?e [''u'' \<mapsto> ?s] ''u'' ''a@b.com''
             = (msgMissing_p2,
                [''u'' \<mapsto> \<lparr>stage = awaiting_duration, data = sampleData\<lparr>duration := Some 0\<rparr>\<rparr>])"
    by (simp add: sample_cleaned_email sample_lower_email sample_zero_fields)
  from creating_missing_field [where e = ?e and ss = "[''u'' \<mapsto> ?c]" and u = "''u''" and s = ?c
         and m = "''ok''", OF t hc]
  have 2: "handleUserMessage ?e [''u'' \<mapsto> ?c] ''u'' ''ok''
             = (msgMissing,
                [''u'' \<mapsto> \<lparr>stage = awaiting_duration, data = sampleData\<lparr>duration := Some 0\<rparr>\<rparr>])"
    by (simp add: sample_zero_fields)
  from 1 2 show ?thesis by blast
qed

section \<open>C4 and C5: the answer of the calendar\<close>












section \<open>C6: no stored credential\<close>

lemma upd_known: "ss u = Some s \<Longrightarrow> ss(u \<mapsto> s) = ss"
  by (rule fun_upd_idem)

text \<open>
  C6, as the code has it. Without a stored credential, \<open>handleUserMessage\<close> of
  \<open>src/backend/serverv3.js\<close> and of \<open>part_002\<close> answer every turn, in whatever stage, with
  the fixed text that the bot is not connected, before the session is read: nothing
  changes. \<open>handleUserMessage\<close> of \<open>part_003\<close> does so for a session in the stage
  \<open>creating\<close>. The handler of \<open>part_001\<close> looks the credential up only inside the block
  of the stage \<open>creating\<close>, behind the collecting stages: it answers with its fixed text
  that the calendar is not connected and the session ends in the stage \<open>creating\<close>;
  a turn that began in \<open>awaiting_email\<close> with an e-mail address has stored the address
  and changed the stage by then.
\<close>

theorem missing_credential:
  assumes "\<not> token e"
  shows
    "handleUserMessage e ss u m = (msgNotConnected, ss)
     \<and> handleUserMessage_p2 e ss u m = (msgNotConnected, ss)
     \<and> (ss u = Some s \<and> stage s = creating \<longrightarrow>
          handleUserMessage_p3 e ss u m = (msgNotConnected, ss))
     \<and> (sender \<noteq> [] \<and> ss (normalizePhone (defaultCountry e) sender) = Some s
          \<and> stage s = creating \<longrightarrow>
          incomingSms_p1 e ss sender body = (Some msgCalendarOff, ss))
     \<and> (sender \<noteq> [] \<and> ss (normalizePhone (defaultCountry e) sender) = Some s
          \<and> stage s = awaiting_email
          \<and> match_re email_re (toLowerCase (trim body)) = Some a \<longrightarrow>
          incomingSms_p1 e ss sender body
            = (Some msgCalendarOff,
               ss(normalizePhone (defaultCountry e) sender
                    \<mapsto> \<lparr>stage = creating, data = (data s)\<lparr>email := Some a\<rparr>\<rparr>)))"
proof (intro conjI impI)
  show "handleUserMessage e ss u m = (msgNotConnected, ss)"
    using assms by (rule handle_disconnected)
  show "handleUserMessage_p2 e ss u m = (msgNotConnected, ss)"
    using assms by (rule handle_p2_disconnected)
  show "handleUserMessage_p3 e ss u m = (msgNotConnected, ss)"
    if "ss u = Some s \<and> stage s = creating"
    using that assms by (simp add: handle_p3_known advance_p3_disconnected upd_known)
  show "incomingSms_p1 e ss sender body = (Some msgCalendarOff, ss)"
    if "sender \<noteq> [] \<and> ss (normalizePhone (defaultCountry e) sender) = Some s
        \<and> stage s = creating"
    using that assms
    by (simp add: sms_known [of sender ss e s body "[]" s] collect_p1_creating
          createBooking_p1_disconnected upd_known)
  show "incomingSms_p1 e ss sender body
          = (Some msgCalendarOff,
             ss(normalizePhone (defaultCountry e) sender
                  \<mapsto> \<lparr>stage = creating, data = (data s)\<lparr>email := Some a\<rparr>\<rparr>))"
    if "sender \<noteq> [] \<and> ss (normalizePhone (defaultCountry e) sender) = Some s
        \<and> stage s = awaiting_email
        \<and> match_re email_re (toLowerCase (trim body)) = Some a"
    using that assms
    by (simp add: sms_known [of sender ss e s body
            "''Danke - ich ueberpruefe jetzt den Terminkalender ...''"
            "\<lparr>stage = creating, data = (data s)\<lparr>email := Some a\<rparr>\<rparr>"]
          collect_p1_email createBooking_p1_disconnected)
qed

lemma sample_email_match: "match_re email_re (toLowerCase (trim ''a@b.com'')) = Some ''a@b.com''"
  by code_simp

theorem missing_credential_witness:
  "handleUserMessage (sampleEnv False (Returns True))
       [''u'' \<mapsto> \<lparr>stage = creating, data = sampleData\<rparr>] ''u'' ''ok''
     = (msgNotConnected, [''u'' \<mapsto> \<lparr>stage = creating, data = sampleData\<rparr>])
   \<and> handleUserMessage_p3 (sampleEnv False (Returns True))
       [''u'' \<mapsto> \<lparr>stage = creating, data = sampleData\<rparr>] ''u'' ''ok''
     = (msgNotConnected, [''u'' \<mapsto> \<lparr>stage = creating, data = sampleData\<rparr>])
   \<and> incomingSms_p1 (sampleEnv False (Returns True))
       [''+491'' \<mapsto> \<lparr>stage = awaiting_email, data = sampleData\<rparr>] ''+491'' ''a@b.com''
     = (Some msgCalendarOff, [''+491'' \<mapsto> \<lparr>stage = creating, data = sampleData\<rparr>])"
proof -
  let ?e = "sampleEnv False (Returns True)"
  have h: "\<not> token ?e"
    by (simp add: sample_token)
  note c = missing_credential [OF h]
  from c [where ss = "[''u'' \<mapsto> \<lparr>stage = creating, data = sampleData\<rparr>]" and u = "''u''"
            and m = "''ok''" and s = "\<lparr>stage = creating, data = sampleData\<rparr>"]
  have 1: "handleUserMessage ?e [''u'' \<mapsto> \<lparr>stage = creating, data = sampleData\<rparr>] ''u'' ''ok''
             = (msgNotConnected, [''u'' \<mapsto> \<lparr>stage = creating, data = sampleData\<rparr>])
           \<and> handleUserMessage_p3 ?e [''u'' \<mapsto> \<lparr>stage = creating, data = sampleData\<rparr>] ''u'' ''ok''
             = (msgNotConnected, [''u'' \<mapsto> \<lparr>stage = creating, data = sampleData\<rparr>])"
    by simp
  have d: "sampleData\<lparr>email := Some ''a@b.com''\<rparr> = sampleData"
    by (simp add: sampleData_def)
  from c [where ss = "[''+491'' \<mapsto> \<lparr>stage = awaiting_email, data = sampleData\<rparr>]"
            and sender = "''+491''" and body = "''a@b.com''"
            and s = "\<lparr>stage = awaiting_email, data = sampleData\<rparr>" and a = "''a@b.com''"]
  have 2: "incomingSms_p1 ?e [''+491'' \<mapsto> \<lparr>stage = awaiting_email, data = sampleData\<rparr>]
             ''+491'' ''a@b.com''
           = (Some msgCalendarOff, [''+491'' \<mapsto> \<lparr>stage = creating, data = sampleData\<rparr>])"
    by (simp only: sample_phone sample_email_match d fun_upd_same fun_upd_upd session.simps
          simp_thms list.simps)
  from 1 2 show ?thesis by blast
qed

text \<open>
  C6 as it is written fails in the handler of \<open>part_001\<close>: no credential is stored, the
  turn begins in \<open>awaiting_email\<close>, reaches the block that needs the calendar, and ends
  in the stage \<open>creating\<close>.
\<close>

theorem missing_credential_counterexample:
  "\<not> token (sampleEnv False (Returns True))
   \<and> map_option stage
         (snd (incomingSms_p1 (sampleEnv False (Returns True))
                 [''+491'' \<mapsto> \<lparr>stage = awaiting_email, data = sampleData\<rparr>]
                 ''+491'' ''a@b.com'') ''+491'')
       = Some creating"
proof -
  let ?e = "sampleEnv False (Returns True)"
  let ?s = "\<lparr>stage = awaiting_email, data = sampleData\<rparr>"
  let ?s1 = "\<lparr>stage = creating, data = (data ?s)\<lparr>email := Some ''a@b.com''\<rparr>\<rparr>"
  have "incomingSms_p1 ?e [''+491'' \<mapsto> ?s] ''+491'' ''a@b.com''
        = (Some msgCalendarOff, [''+491'' \<mapsto> ?s1])"
    by (simp add: sms_known [of "''+491''" "[''+491'' \<mapsto> ?s]" ?e ?s "''a@b.com''"
            "''Danke - ich ueberpruefe jetzt den Terminkalender ...''" ?s1]
          collect_p1_email sample_email_match sample_phone sample_token
          createBooking_p1_disconnected)
  then show ?thesis
    by (simp add: sample_token)
qed

section \<open>C8: a completed session\<close>

text \<open>
  C8, as the code has it. For a session in the stage \<open>completed\<close> and every inbound
  text, \<open>handleUserMessage\<close> of \<open>part_003\<close> answers with the fixed text that the
  appointment is already made; \<open>handleUserMessage\<close> of \<open>src/backend/serverv3.js\<close> does
  so while a credential is stored and answers with the fixed text that the bot is not
  connected otherwise. In every case the sessions are what they were, so the same
  message sent again gets the same answer.
\<close>

theorem completed_static:
  assumes "ss u = Some s" and "stage s = completed"
  shows
    "handleUserMessage_p3 e ss u m = (msgAlreadyBooked, ss)
     \<and> (token e \<longrightarrow> handleUserMessage e ss u m = (msgAlreadyBooked, ss))
     \<and> (\<not> token e \<longrightarrow> handleUserMessage e ss u m = (msgNotConnected, ss))
     \<and> handleUserMessage_p3 e' (snd (handleUserMessage_p3 e ss u m)) u m
         = handleUserMessage_p3 e ss u m
     \<and> (token e' = token e \<longrightarrow>
          handleUserMessage e' (snd (handleUserMessage e ss u m)) u m
            = handleUserMessage e ss u m)"
proof -
  have p3: "handleUserMessage_p3 x ss u m = (msgAlreadyBooked, ss)" for x
    using assms by (simp add: handle_p3_known advance_p3_completed upd_known)
  have on: "token x \<Longrightarrow> handleUserMessage x ss u m = (msgAlreadyBooked, ss)" for x
    using assms by (simp add: handle_connected advance_completed upd_known)
  have off: "\<not> token x \<Longrightarrow> handleUserMessage x ss u m = (msgNotConnected, ss)" for x
    by (rule handle_disconnected)
  have twice: "handleUserMessage e' (snd (handleUserMessage e ss u m)) u m
               = handleUserMessage e ss u m" if "token e' = token e"
    using that on [of e] on [of e'] off [of e] off [of e'] by (cases "token e") simp_all
  from p3 [of e] p3 [of e'] on [of e] off [of e] twice show ?thesis
    by simp
qed

theorem completed_static_witness:
  "handleUserMessage_p3 (sampleEnv True (Returns True))
       [''u'' \<mapsto> \<lparr>stage = completed, data = sampleData\<rparr>] ''u'' ''Hallo''
     = (msgAlreadyBooked, [''u'' \<mapsto> \<lparr>stage = completed, data = sampleData\<rparr>])
   \<and> handleUserMessage (sampleEnv True (Returns True))
       [''u'' \<mapsto> \<lparr>stage = completed, data = sampleData\<rparr>] ''u'' ''Hallo''
     = (msgAlreadyBooked, [''u'' \<mapsto> \<lparr>stage = completed, data = sampleData\<rparr>])"
proof -
  let ?s = "\<lparr>stage = completed, data = sampleData\<rparr>"
  have h: "[''u'' \<mapsto> ?s] ''u'' = Some ?s" "stage ?s = completed"
    by simp_all
  from completed_static [where ss = "[''u'' \<mapsto> ?s]" and u = "''u''" and s = ?s
         and e = "sampleEnv True (Returns True)" and m = "''Hallo''", OF h]
  show ?thesis
    by (simp add: sample_token)
qed

text \<open>
  C8 as it is written fails in \<open>src/backend/serverv3.js\<close> while no credential is
  stored: the completed session gets the text that the bot is not connected.
\<close>

theorem completed_static_counterexample:
  "fst (handleUserMessage (sampleEnv False (Returns True))
          [''u'' \<mapsto> \<lparr>stage = completed, data = sampleData\<rparr>] ''u'' ''Hallo'')
     = msgNotConnected
   \<and> msgNotConnected \<noteq> msgAlreadyBooked"
  by (simp add: handle_disconnected sample_token msgNotConnected_def msgAlreadyBooked_def)

section \<open>C9: the fields of \<open>session.data\<close> stay\<close>

lemma keys_mono:
  "(date d \<noteq> None \<longrightarrow> date d' \<noteq> None) \<Longrightarrow> (time d \<noteq> None \<longrightarrow> time d' \<noteq> None) \<Longrightarrow>
   (duration d \<noteq> None \<longrightarrow> duration d' \<noteq> None) \<Longrightarrow> (email d \<noteq> None \<longrightarrow> email d' \<noteq> None) \<Longrightarrow>
   firstName d' = firstName d \<Longrightarrow> lastName d' = lastName d \<Longrightarrow> company d' = company d \<Longrightarrow>
   keys d \<subseteq> keys d'"
  unfolding keys_def by (intro Un_mono) simp_all

lemma collect_keys: "keys (data s) \<subseteq> keys (data (snd (collect c t s)))"
  by (cases "stage s"; cases "match_re date_re c"; cases "match_re time_re c";
      cases "match_re dur_re c"; cases "match_re email_re c")
     (simp_all add: collect_def Let_def keys_mono)

lemma createBooking_data: "data (snd (createBooking e s)) = data s"
  by (simp add: createBooking_def Let_def split: outcome.splits booked.splits)

lemma advance_keys: "keys (data s) \<subseteq> keys (data (snd (advance e s m)))"
proof -
  obtain r s1 where c: "collect (cleanText m) (toLowerCase (cleanText m)) s = (r, s1)"
    by (cases "collect (cleanText m) (toLowerCase (cleanText m)) s")
  with collect_keys [of s "cleanText m" "toLowerCase (cleanText m)"]
  have k: "keys (data s) \<subseteq> keys (data s1)" by simp
  from c have "data (snd (advance e s m)) = data s1"
    by (simp add: advance_def Let_def createBooking_data)
  with k show ?thesis by simp
qed

lemma advance_p3_keys: "keys (data s) \<subseteq> keys (data (snd (advance_p3 e s m)))"
  by (cases "stage s")
     (simp_all add: advance_p3_def Let_def keys_mono
        split: option.splits outcome.splits booked.splits)


lemma handle_keys:
  assumes "ss u = Some s"
  shows "\<exists>s'. snd (handleUserMessage e ss k m) u = Some s' \<and> keys (data s) \<subseteq> keys (data s')"
proof (cases "token e \<and> k = u")
  case True
  with assms have "snd (handleUserMessage e ss k m) u = Some (snd (advance e s m))"
    by (simp add: handle_connected)
  with advance_keys [of s e m] show ?thesis by simp
next
  case False
  with assms have "snd (handleUserMessage e ss k m) u = Some s"
    by (auto simp: handleUserMessage_def split: prod.splits)
  then show ?thesis by simp
qed

lemma handle_p3_keys:
  assumes "ss u = Some s"
  shows "\<exists>s'. snd (handleUserMessage_p3 e ss k m) u = Some s' \<and> keys (data s) \<subseteq> keys (data s')"
proof (cases "k = u")
  case True
  with assms have "snd (handleUserMessage_p3 e ss k m) u = Some (snd (advance_p3 e s m))"
    by (simp add: handle_p3_known)
  with advance_p3_keys [of s e m] show ?thesis by simp
next
  case False
  with assms have "snd (handleUserMessage_p3 e ss k m) u = Some s"
    by (auto simp: handleUserMessage_p3_def Let_def split: prod.splits)
  then show ?thesis by simp
qed

lemma run_keys:
  "ss u = Some s \<Longrightarrow> \<exists>s'. run ts ss u = Some s' \<and> keys (data s) \<subseteq> keys (data s')"
proof (induction ts arbitrary: ss s)
  case Nil
  then show ?case by simp
next
  case (Cons t ts)
  obtain e k m where t: "t = (e, k, m)" by (cases t)
  from handle_keys [where ss = ss and u = u and s = s and e = e and k = k and m = m, OF Cons.prems]
  obtain s1 where 1: "snd (handleUserMessage e ss k m) u = Some s1"
    and 2: "keys (data s) \<subseteq> keys (data s1)" by blast
  from Cons.IH [where ss = "snd (handleUserMessage e ss k m)" and s = s1, OF 1] obtain s' where
    "run ts (snd (handleUserMessage e ss k m)) u = Some s'" "keys (data s1) \<subseteq> keys (data s')"
    by blast
  with 2 t show ?case by auto
qed

lemma run_p3_keys:
  "ss u = Some s \<Longrightarrow> \<exists>s'. run_p3 ts ss u = Some s' \<and> keys (data s) \<subseteq> keys (data s')"
proof (induction ts arbitrary: ss s)
  case Nil
  then show ?case by simp
next
  case (Cons t ts)
  obtain e k m where t: "t = (e, k, m)" by (cases t)
  from handle_p3_keys [where ss = ss and u = u and s = s and e = e and k = k and m = m, OF Cons.prems]
  obtain s1 where 1: "snd (handleUserMessage_p3 e ss k m) u = Some s1"
    and 2: "keys (data s) \<subseteq> keys (data s1)" by blast
  from Cons.IH [where ss = "snd (handleUserMessage_p3 e ss k m)" and s = s1, OF 1] obtain s' where
    "run_p3 ts (snd (handleUserMessage_p3 e ss k m)) u = Some s'" "keys (data s1) \<subseteq> keys (data s')"
    by blast
  with 2 t show ?case by auto
qed

text \<open>
  C9. Whatever turns are processed, for this user or for others, in whatever worlds:
  a session that exists is still there afterwards, and every property its data had
  before is still set. This holds for \<open>handleUserMessage\<close> of
  \<open>src/backend/serverv3.js\<close> and of \<open>part_003\<close>.
\<close>

theorem data_fields_stay:
  assumes "ss u = Some s"
  shows
    "(\<exists>s'. run ts ss u = Some s' \<and> keys (data s) \<subseteq> keys (data s'))
     \<and> (\<exists>s'. run_p3 ts ss u = Some s' \<and> keys (data s) \<subseteq> keys (data s'))"
  using assms run_keys [of ss u s ts] run_p3_keys [of ss u s ts] by blast

theorem data_fields_stay_witness:
  "(\<exists>s'. run [(sampleEnv True (Returns False), ''u'', ''b@c.de''),
               (sampleEnv True (Returns True), ''u'', ''11 Uhr'')]
              [''u'' \<mapsto> \<lparr>stage = awaiting_email, data = sampleData\<rparr>] ''u'' = Some s'
         \<and> keys (data \<lparr>stage = awaiting_email, data = sampleData\<rparr>) \<subseteq> keys (data s'))
   \<and> (\<exists>s'. run_p3 [(sampleEnv True (Returns False), ''u'', ''b@c.de''),
                  (sampleEnv True (Returns True), ''u'', ''11 Uhr'')]
                 [''u'' \<mapsto> \<lparr>stage = awaiting_email, data = sampleData\<rparr>] ''u'' = Some s'
         \<and> keys (data \<lparr>stage = awaiting_email, data = sampleData\<rparr>) \<subseteq> keys (data s'))"
proof -
  let ?s = "\<lparr>stage = awaiting_email, data = sampleData\<rparr>"
  have h: "[''u'' \<mapsto> ?s] ''u'' = Some ?s"
    by simp
  show ?thesis
    by (rule data_fields_stay [where ss = "[''u'' \<mapsto> ?s]" and u = "''u''" and s = ?s, OF h])
qed

section \<open>C10: a duration of zero\<close>

lemma collect_not_completed:
  "stage s \<noteq> completed \<Longrightarrow> stage (snd (collect c t s)) \<noteq> completed"
  by (cases "stage s"; cases "match_re date_re c"; cases "match_re time_re c";
      cases "match_re dur_re c"; cases "match_re email_re c")
     (simp_all add: collect_def Let_def)

lemma collect_creating_duration:
  "stage (snd (collect c t s)) = creating \<Longrightarrow>
   duration (data (snd (collect c t s))) = duration (data s)"
  by (cases "stage s"; cases "match_re date_re c"; cases "match_re time_re c";
      cases "match_re dur_re c"; cases "match_re email_re c")
     (simp_all add: collect_def Let_def split: if_splits)

lemma createBooking_zero:
  "\<not> truthyNum (duration (data s)) \<Longrightarrow> stage (snd (createBooking e s)) \<noteq> completed"
  by (simp add: createBooking_def Let_def firstMissing_def)

lemma advance_zero:
  assumes "stage s \<noteq> completed" and "duration (data s) = Some 0"
  shows "stage (snd (advance e s m)) \<noteq> completed"
proof -
  let ?c = "collect (cleanText m) (toLowerCase (cleanText m)) s"
  obtain r s1 where c: "?c = (r, s1)" by (cases ?c)
  from collect_not_completed [OF assms(1), of "cleanText m" "toLowerCase (cleanText m)"] c
  have n: "stage s1 \<noteq> completed" by simp
  show ?thesis
  proof (cases "stage s1 = creating")
    case True
    with collect_creating_duration [of "cleanText m" "toLowerCase (cleanText m)" s] c assms(2)
    have "\<not> truthyNum (duration (data s1))" by (simp add: truthyNum_def)
    then have "stage (snd (createBooking e s1)) \<noteq> completed" by (rule createBooking_zero)
    with c True show ?thesis by (simp add: advance_def Let_def)
  next
    case False
    with c n show ?thesis by (simp add: advance_def Let_def)
  qed
qed

lemma sample_zero_match: "match_re dur_re (cleanText ''0'') = Some ''0''"
  by code_simp

lemma sample_clean_email: "match_re email_re (cleanText ''a@b.com'') = Some ''a@b.com''"
  by code_simp

text \<open>
  C10, as the code has it, for \<open>handleUserMessage\<close> of \<open>src/backend/serverv3.js\<close>. While
  a credential is stored: in the stage \<open>awaiting_duration\<close> a text whose first run of
  digits has the value zero stores the duration 0 and leads to \<open>awaiting_email\<close>; when
  the session with the duration 0 (date and time present) then reaches the block of the
  stage \<open>creating\<close>, from \<open>awaiting_email\<close> with an e-mail address or from \<open>creating\<close>,
  the turn answers that information is missing and sets \<open>awaiting_duration\<close>. And with
  or without a credential, no turn takes a session that holds the duration 0 and is not
  completed to the stage \<open>completed\<close>.
\<close>

theorem zero_duration:
  assumes "ss u = Some s"
  shows
    "(token e \<and> stage s = awaiting_duration
        \<and> match_re dur_re (cleanText m) = Some z \<and> parseInt z = 0 \<longrightarrow>
        handleUserMessage e ss u m
          = (msgAskEmail, ss(u \<mapsto> \<lparr>stage = awaiting_email, data = (data s)\<lparr>duration := Some 0\<rparr>\<rparr>)))
     \<and> (token e \<and> stage s = awaiting_email \<and> duration (data s) = Some 0
          \<and> truthyStr (date (data s)) \<and> truthyStr (time (data s))
          \<and> match_re email_re (cleanText m) = Some a \<longrightarrow>
          handleUserMessage e ss u m
            = (msgMissing,
               ss(u \<mapsto> \<lparr>stage = awaiting_duration, data = (data s)\<lparr>email := Some a\<rparr>\<rparr>)))
     \<and> (token e \<and> stage s = creating \<and> duration (data s) = Some 0
          \<and> truthyStr (date (data s)) \<and> truthyStr (time (data s)) \<longrightarrow>
          handleUserMessage e ss u m = (msgMissing, ss(u \<mapsto> s\<lparr>stage := awaiting_duration\<rparr>)))
     \<and> (stage s \<noteq> completed \<and> duration (data s) = Some 0 \<longrightarrow>
          map_option stage (snd (handleUserMessage e ss u m) u) \<noteq> Some completed)"
proof (intro conjI impI)
  assume h: "token e \<and> stage s = awaiting_duration
    \<and> match_re dur_re (cleanText m) = Some z \<and> parseInt z = 0"
  then have "advance e s m
             = (msgAskEmail, \<lparr>stage = awaiting_email, data = (data s)\<lparr>duration := Some 0\<rparr>\<rparr>)"
    using advance_duration [of s m z e] by simp
  with h assms show "handleUserMessage e ss u m
      = (msgAskEmail, ss(u \<mapsto> \<lparr>stage = awaiting_email, data = (data s)\<lparr>duration := Some 0\<rparr>\<rparr>))"
    by (simp add: handle_connected)
next
  let ?s1 = "\<lparr>stage = creating, data = (data s)\<lparr>email := Some a\<rparr>\<rparr>"
  assume h: "token e \<and> stage s = awaiting_email \<and> duration (data s) = Some 0
    \<and> truthyStr (date (data s)) \<and> truthyStr (time (data s))
    \<and> match_re email_re (cleanText m) = Some a"
  then have "createBooking e ?s1 = (msgMissing, ?s1\<lparr>stage := awaiting_duration\<rparr>)"
    by (simp add: createBooking_def Let_def firstMissing_def truthyNum_def)
  with h assms show "handleUserMessage e ss u m
      = (msgMissing, ss(u \<mapsto> \<lparr>stage = awaiting_duration, data = (data s)\<lparr>email := Some a\<rparr>\<rparr>))"
    by (simp add: handle_connected advance_email)
next
  assume h: "token e \<and> stage s = creating \<and> duration (data s) = Some 0
    \<and> truthyStr (date (data s)) \<and> truthyStr (time (data s))"
  then have "createBooking e s = (msgMissing, s\<lparr>stage := awaiting_duration\<rparr>)"
    by (simp add: createBooking_def Let_def firstMissing_def truthyNum_def)
  with h assms show "handleUserMessage e ss u m
      = (msgMissing, ss(u \<mapsto> s\<lparr>stage := awaiting_duration\<rparr>))"
    by (simp add: handle_connected advance_creating)
next
  assume h: "stage s \<noteq> completed \<and> duration (data s) = Some 0"
  show "map_option stage (snd (handleUserMessage e ss u m) u) \<noteq> Some completed"
  proof (cases "token e")
    case True
    with assms h advance_zero [of s e m] show ?thesis
      by (simp add: handle_connected)
  next
    case False
    with assms h show ?thesis
      by (simp add: handle_disconnected)
  qed
qed

theorem zero_duration_witness:
  "handleUserMessage (sampleEnv True (Returns True))
       [''u'' \<mapsto> \<lparr>stage = awaiting_duration, data = sampleData\<lparr>duration := None\<rparr>\<rparr>] ''u'' ''0''
     = (msgAskEmail,
        [''u'' \<mapsto> \<lparr>stage = awaiting_email, data = sampleData\<lparr>duration := Some 0\<rparr>\<rparr>])
   \<and> handleUserMessage (sampleEnv True (Returns True))
       [''u'' \<mapsto> \<lparr>stage = awaiting_email, data = sampleData\<lparr>duration := Some 0\<rparr>\<rparr>]
       ''u'' ''a@b.com''
     = (msgMissing,
        [''u'' \<mapsto> \<lparr>stage = awaiting_duration, data = sampleData\<lparr>duration := Some 0\<rparr>\<rparr>])"
proof -
  let ?e = "sampleEnv True (Returns True)"
  let ?s = "\<lparr>stage = awaiting_duration, data = sampleData\<lparr>duration := None\<rparr>\<rparr>"
  let ?t = "\<lparr>stage = awaiting_email, data = sampleData\<lparr>duration := Some 0\<rparr>\<rparr>"
  have hs: "[''u'' \<mapsto> ?s] ''u'' = Some ?s" and ht: "[''u'' \<mapsto> ?t] ''u'' = Some ?t"
    by simp_all
  have z: "parseInt ''0'' = 0"
    by code_simp
  have d: "sampleData\<lparr>duration := Some 0, email := Some ''a@b.com''\<rparr>
           = sampleData\<lparr>duration := Some 0\<rparr>"
          "sampleData\<lparr>duration := None, duration := Some 0\<rparr> = sampleData\<lparr>duration := Some 0\<rparr>"
    by (simp_all add: sampleData_def)
  from zero_duration [where ss = "[''u'' \<mapsto> ?s]" and u = "''u''" and s = ?s and e = ?e
         and m = "''0''" and z = "''0''", OF hs]
  have 1: "handleUserMessage ?e [''u'' \<mapsto> ?s] ''u'' ''0'' = (msgAskEmail, [''u'' \<mapsto> ?t])"
    by (simp add: sample_token sample_zero_match z d)
  from zero_duration [where ss = "[''u'' \<mapsto> ?t]" and u = "''u''" and s = ?t and e = ?e
         and m = "''a@b.com''" and a = "''a@b.com''", OF ht]
  have 2: "handleUserMessage ?e [''u'' \<mapsto> ?t] ''u'' ''a@b.com''
           = (msgMissing,
              [''u'' \<mapsto> \<lparr>stage = awaiting_duration, data = sampleData\<lparr>duration := Some 0\<rparr>\<rparr>])"
    by (simp add: sample_token sample_clean_email sampleData_fields truthyStr_def d)
  from 1 2 show ?thesis by blast
qed

text \<open>
  C10 as it is written fails while no credential is stored: the text \<open>0\<close> stores
  nothing and the session stays in the stage \<open>awaiting_duration\<close>.
\<close>

theorem zero_duration_counterexample:
  "match_re dur_re (cleanText ''0'') = Some ''0''
   \<and> snd (handleUserMessage (sampleEnv False (Returns True))
            [''u'' \<mapsto> \<lparr>stage = awaiting_duration, data = sampleData\<lparr>duration := None\<rparr>\<rparr>]
            ''u'' ''0'') ''u''
       = Some \<lparr>stage = awaiting_duration, data = sampleData\<lparr>duration := None\<rparr>\<rparr>"
  by (simp add: handle_disconnected sample_token sample_zero_match)

end
